theory Spec2Isabelle
  imports Complex_Main "HOL-Library.Char_ord" "HOL-Library.List_Lexorder"
begin

section \<open>Values, errors and data frames\<close>

text \<open>
  The Python sources compute on pandas data frames of floating-point columns. A column
  value is modelled by the exact rational it denotes (\<^typ>\<open>rat\<close>): sums, means and
  comparisons are those of exact arithmetic, and the rounding error of IEEE doubles is not
  represented. A sum is taken over the rows in frame order; with doubles its value can
  depend on that order, and nothing below states that it does not. The derived columns of
  \<open>load_data\<close>, where a zero divisor makes a cell \<open>inf\<close> or \<open>NaN\<close>, are computed in an
  arithmetic that is a parameter.

  Column names that contain non-ASCII characters are written in ASCII
  (\<open>''Total Emissions (kg CO2e)''\<close> for the column with the subscript 2).
\<close>

datatype py_error =
    KeyError string
  | NameError string
  | ValueError string
  | AttributeError string
  | OSError string
  | TypeError string
  | RequestException string
  | OtherException string

text \<open>
  One row of \<open>data/raw/Enhanced_Data_Center_Emissions_Database.csv\<close>, with the columns
  the sources read: \<open>Cloud Service Provider\<close>, \<open>Location\<close>,
  \<open>Energy Consumption (MWh)\<close>, \<open>Total Emissions (kg CO2e)\<close>,
  \<open>Renewable Energy Usage (%)\<close>, \<open>AI Workload (%)\<close> and
  \<open>PUE (Power Usage Effectiveness)\<close>.
\<close>

record facility =
  cloud_service_provider :: string
  location :: string
  energy_consumption :: rat
  total_emissions :: rat
  renewable_energy_usage :: rat
  ai_workload :: rat
  pue :: rat

text \<open>
  \<open>Series.sum()\<close> and \<open>Series.mean()\<close>. On an empty series pandas' mean is \<open>NaN\<close>;
  every caller below either has a non-empty group or uses the mean only to compare the
  rows of the same (empty) frame with it, so that no row is selected either way.
\<close>

definition series_sum :: "rat list \<Rightarrow> rat" where
  "series_sum xs = sum_list xs"

definition series_mean :: "rat list \<Rightarrow> rat" where
  "series_mean xs = sum_list xs / of_nat (length xs)"

text \<open>
  \<open>DataFrame.round(2)\<close> rounds to two decimals with numpy's rule: the value times 100
  is rounded to the nearest integer, a tie going to the even one.
\<close>

definition round_half_even :: "rat \<Rightarrow> int" where
  "round_half_even x =
     (let f = \<lfloor>x\<rfloor>; d = x - of_int f
      in if d < 1 / 2 then f else if 1 / 2 < d then f + 1
         else if even f then f else f + 1)"

definition round2 :: "rat \<Rightarrow> rat" where
  "round2 x = of_int (round_half_even (x * 100)) / 100"

text \<open>
  \<open>df.groupby(key)\<close>: one group per distinct key, the groups in sorted key order (the
  default \<open>sort=True\<close>), each group holding the rows of that key in frame order.
\<close>

definition group_keys :: "('a \<Rightarrow> string) \<Rightarrow> 'a list \<Rightarrow> string list" where
  "group_keys key df = sort (remdups (map key df))"

definition groupby :: "('a \<Rightarrow> string) \<Rightarrow> 'a list \<Rightarrow> (string \<times> 'a list) list" where
  "groupby key df = map (\<lambda>k. (k, filter (\<lambda>r. key r = k) df)) (group_keys key df)"

text \<open>A Python value of a record handed to the store, and a dictionary in key order.\<close>

datatype pyval = Num rat | Str string | NoneVal

type_synonym pydict = "(string \<times> pyval) list"

section \<open>Aggregates uploaded to the store (\<open>supabase_manager.py\<close>)\<close>

text \<open>
  The Supabase client is an external collaborator: \<open>store_insert table records\<close> stands for
  \<open>self.supabase.table(table).insert(records).execute()\<close>, which returns a result or
  raises. \<open>clock i\<close> is what the i-th call of \<open>datetime.now().isoformat()\<close> returns.
\<close>

datatype printed =
    Uploaded_ok nat
  | Upload_error py_error

definition with_timestamps :: "string \<Rightarrow> (nat \<Rightarrow> string) \<Rightarrow> pydict list \<Rightarrow> pydict list" where
  "with_timestamps key clock records =
     map (\<lambda>(i, record). record @ [(key, Str (clock i))])
       (zip [0..<length records] records)"

definition facility_to_dict :: "facility \<Rightarrow> pydict" where
  "facility_to_dict r =
     [(''Cloud Service Provider'', Str (cloud_service_provider r)),
      (''Location'', Str (location r)),
      (''Energy Consumption (MWh)'', Num (energy_consumption r)),
      (''Total Emissions (kg CO2e)'', Num (total_emissions r)),
      (''Renewable Energy Usage (%)'', Num (renewable_energy_usage r)),
      (''AI Workload (%)'', Num (ai_workload r)),
      (''PUE (Power Usage Effectiveness)'', Num (pue r))]"

definition emissions_records :: "(nat \<Rightarrow> string) \<Rightarrow> facility list \<Rightarrow> pydict list" where
  "emissions_records clock data =
     with_timestamps ''uploaded_at'' clock (map facility_to_dict data)"

definition upload_emissions_data ::
  "(string \<Rightarrow> pydict list \<Rightarrow> py_error + 'r) \<Rightarrow> (nat \<Rightarrow> string) \<Rightarrow> facility list
     \<Rightarrow> printed \<times> 'r option" where
  "upload_emissions_data store_insert clock data =
     (let records = emissions_records clock data
      in case store_insert ''cloud_emissions'' records of
           Inr result \<Rightarrow> (Uploaded_ok (length records), Some result)
         | Inl e \<Rightarrow> (Upload_error e, None))"

definition provider_metrics :: "'a facility_scheme list \<Rightarrow> pydict list" where
  "provider_metrics data =
     map (\<lambda>(p, g).
        [(''Cloud Service Provider'', Str p),
         (''Total Emissions (kg CO2e)'', Num (round2 (series_sum (map total_emissions g)))),
         (''Energy Consumption (MWh)'', Num (round2 (series_sum (map energy_consumption g)))),
         (''Renewable Energy Usage (%)'',
            Num (round2 (series_mean (map renewable_energy_usage g)))),
         (''AI Workload (%)'', Num (round2 (series_mean (map ai_workload g)))),
         (''PUE (Power Usage Effectiveness)'', Num (round2 (series_mean (map pue g))))])
       (groupby cloud_service_provider data)"

definition provider_metrics_records ::
  "(nat \<Rightarrow> string) \<Rightarrow> 'a facility_scheme list \<Rightarrow> pydict list" where
  "provider_metrics_records clock data =
     with_timestamps ''calculated_at'' clock (provider_metrics data)"

definition upload_provider_metrics ::
  "(string \<Rightarrow> pydict list \<Rightarrow> py_error + 'r) \<Rightarrow> (nat \<Rightarrow> string) \<Rightarrow> facility list
     \<Rightarrow> printed \<times> 'r option" where
  "upload_provider_metrics store_insert clock data =
     (let records = provider_metrics_records clock data
      in case store_insert ''provider_metrics'' records of
           Inr result \<Rightarrow> (Uploaded_ok (length records), Some result)
         | Inl e \<Rightarrow> (Upload_error e, None))"

definition location_metrics :: "'a facility_scheme list \<Rightarrow> pydict list" where
  "location_metrics data =
     map (\<lambda>(l, g).
        [(''Location'', Str l),
         (''Total Emissions (kg CO2e)'', Num (round2 (series_mean (map total_emissions g)))),
         (''Energy Consumption (MWh)'', Num (round2 (series_mean (map energy_consumption g)))),
         (''Renewable Energy Usage (%)'',
            Num (round2 (series_mean (map renewable_energy_usage g))))])
       (groupby location data)"

definition location_metrics_records ::
  "(nat \<Rightarrow> string) \<Rightarrow> 'a facility_scheme list \<Rightarrow> pydict list" where
  "location_metrics_records clock data =
     with_timestamps ''calculated_at'' clock (location_metrics data)"

definition upload_location_metrics ::
  "(string \<Rightarrow> pydict list \<Rightarrow> py_error + 'r) \<Rightarrow> (nat \<Rightarrow> string) \<Rightarrow> facility list
     \<Rightarrow> printed \<times> 'r option" where
  "upload_location_metrics store_insert clock data =
     (let records = location_metrics_records clock data
      in case store_insert ''location_metrics'' records of
           Inr result \<Rightarrow> (Uploaded_ok (length records), Some result)
         | Inl e \<Rightarrow> (Upload_error e, None))"

text \<open>
  The scenario of the specification: two records of provider \<open>A\<close> at location \<open>X\<close>
  with emissions 100 and 200 (the other columns are chosen here).
\<close>

definition scenario_records :: "facility list" where
  "scenario_records =
     [\<lparr>cloud_service_provider = ''A'', location = ''X'', energy_consumption = 10,
       total_emissions = 100, renewable_energy_usage = 50, ai_workload = 30, pue = 3 / 2\<rparr>,
      \<lparr>cloud_service_provider = ''A'', location = ''X'', energy_consumption = 20,
       total_emissions = 200, renewable_energy_usage = 60, ai_workload = 40, pue = 3 / 2\<rparr>]"

definition fixed_clock :: "nat \<Rightarrow> string" where
  "fixed_clock i = ''2024-01-01T00:00:00''"

section \<open>The real-time monitor (\<open>realtime_monitor.py\<close>)\<close>

text \<open>
  A row of the \<open>cloud_emissions\<close> table as the monitor reads it: the columns
  \<open>cloud_service_provider\<close>, \<open>total_emissions\<close>, \<open>ai_workload\<close>,
  \<open>renewable_energy_usage\<close> and \<open>uploaded_at\<close> (an ISO timestamp).
\<close>

record emission_row = facility +
  uploaded_at :: string

text \<open>
  The monitor's state is its figure of 2 x 2 axes and the frame \<open>current_emissions\<close>.
  What an axes object shows is the chart drawn on it, its title and its y label.
\<close>

datatype chart =
    Bar_chart "(string \<times> rat) list"
  | Line_chart "(nat \<times> rat option) list"
  | Scatter_chart "(rat \<times> rat \<times> string) list"

record axes =
  chart :: "chart option"
  title :: string
  ylabel :: string

record monitor =
  current_emissions :: "emission_row list"
  ax00 :: axes
  ax01 :: axes
  ax10 :: axes
  ax11 :: axes

definition cleared :: axes where
  "cleared = \<lparr>chart = None, title = [], ylabel = []\<rparr>"

text \<open>\<open>df.groupby('cloud_service_provider')['total_emissions'].sum()\<close>\<close>

definition provider_emissions :: "'a facility_scheme list \<Rightarrow> (string \<times> rat) list" where
  "provider_emissions df =
     map (\<lambda>(p, g). (p, series_sum (map total_emissions g)))
       (groupby cloud_service_provider df)"

text \<open>
  \<open>df.set_index('uploaded_at')['total_emissions'].resample('1H').mean()\<close>, on
  timestamps in seconds: one bin per hour from the first to the last hour that has a row,
  each with the mean of its rows, or \<open>NaN\<close> (here \<open>None\<close>) for an hour without rows.
\<close>

definition resample_hourly_mean :: "(nat \<times> rat) list \<Rightarrow> (nat \<times> rat option) list" where
  "resample_hourly_mean pts =
     (if pts = [] then []
      else
        let hours = map (\<lambda>(t, v). t div 3600) pts
        in map (\<lambda>h.
               let vs = map snd (filter (\<lambda>(t, v). t div 3600 = h) pts)
               in (h, if vs = [] then None else Some (series_mean vs)))
             [Min (set hours) ..< Suc (Max (set hours))])"

text \<open>
  \<open>update_visualizations\<close>. \<open>select\<close> is the outcome of
  \<open>self.supabase.table('cloud_emissions').select('*').execute()\<close>: the rows of the table,
  or the exception it raises. \<open>to_datetime\<close> is \<open>pd.to_datetime\<close> on one timestamp, which
  raises on text it cannot parse (\<open>None\<close>). A frame built from no rows has no columns,
  so that \<open>groupby\<close> raises \<open>KeyError\<close>. The result is the monitor as the call leaves it
  and the exception that ended the call, if any.
\<close>

definition update_visualizations ::
  "(py_error + emission_row list) \<Rightarrow> (string \<Rightarrow> nat option) \<Rightarrow> pydict \<Rightarrow> monitor
     \<Rightarrow> monitor \<times> py_error option" where
  "update_visualizations select to_datetime new_data self =
     (let self1 = self\<lparr>ax00 := cleared, ax01 := cleared, ax10 := cleared, ax11 := cleared\<rparr>
      in case select of
           Inl e \<Rightarrow> (self1, Some e)
         | Inr df \<Rightarrow>
             if df = [] then (self1, Some (KeyError ''cloud_service_provider''))
             else
               let self2 = self1\<lparr>ax00 :=
                     \<lparr>chart = Some (Bar_chart (provider_emissions df)),
                      title = ''Real-time Total Emissions by Provider'',
                      ylabel = ''Total Emissions (kg CO2e)''\<rparr>\<rparr>
               in if None \<in> set (map (\<lambda>r. to_datetime (uploaded_at r)) df)
                  then (self2, Some (ValueError ''uploaded_at''))
                  else
                    let time_series = resample_hourly_mean
                          (map (\<lambda>r. (the (to_datetime (uploaded_at r)), total_emissions r)) df);
                        self3 = self2\<lparr>ax01 :=
                          \<lparr>chart = Some (Line_chart time_series),
                           title = ''Emissions Trend'', ylabel = []\<rparr>\<rparr>;
                        self4 = self3\<lparr>ax10 :=
                          \<lparr>chart = Some (Scatter_chart
                             (map (\<lambda>r. (ai_workload r, total_emissions r,
                                      cloud_service_provider r)) df)),
                           title = ''AI Workload vs Emissions'', ylabel = []\<rparr>\<rparr>;
                        self5 = self4\<lparr>ax11 :=
                          \<lparr>chart = Some (Scatter_chart
                             (map (\<lambda>r. (renewable_energy_usage r, total_emissions r,
                                      cloud_service_provider r)) df)),
                           title = ''Renewable Energy vs Emissions'', ylabel = []\<rparr>\<rparr>
                    in (self5, None))"

text \<open>
  \<open>handle_broadcast\<close>, the callback of the subscription: it reads \<open>payload['new']\<close>,
  prints the provider and the emissions of the new row and updates the visualizations;
  any exception is caught and printed.
\<close>

datatype log_line =
    New_data_received
  | Provider_line pyval
  | Emissions_line pyval
  | Separator_line
  | Error_handling_broadcast py_error
  | Monitoring_started
  | Error_in_monitoring py_error

definition handle_broadcast ::
  "(py_error + emission_row list) \<Rightarrow> (string \<Rightarrow> nat option) \<Rightarrow> (string \<times> pydict) list
     \<Rightarrow> monitor \<Rightarrow> log_line list \<times> monitor" where
  "handle_broadcast select to_datetime payload self =
     (case map_of payload ''new'' of
        None \<Rightarrow> ([Error_handling_broadcast (KeyError ''new'')], self)
      | Some new_data \<Rightarrow>
          (case map_of new_data ''cloud_service_provider'' of
             None \<Rightarrow>
               ([New_data_received,
                 Error_handling_broadcast (KeyError ''cloud_service_provider'')], self)
           | Some p \<Rightarrow>
               (case map_of new_data ''total_emissions'' of
                  None \<Rightarrow>
                    ([New_data_received, Provider_line p,
                      Error_handling_broadcast (KeyError ''total_emissions'')], self)
                | Some e \<Rightarrow>
                    (case update_visualizations select to_datetime new_data self of
                       (self', None) \<Rightarrow>
                         ([New_data_received, Provider_line p, Emissions_line e,
                           Separator_line], self')
                     | (self', Some err) \<Rightarrow>
                         ([New_data_received, Provider_line p, Emissions_line e,
                           Separator_line, Error_handling_broadcast err], self')))))"

text \<open>
  \<open>start_realtime_monitoring\<close> subscribes the callback and then sleeps in a loop for
  ever; the callback runs once for every notification delivered. The function is modelled
  on a finite run of deliveries: each delivery is the payload together with what the table
  holds when the callback selects from it. A subscription that raises is printed and ends
  the call.
\<close>

type_synonym delivery = "(py_error + emission_row list) \<times> (string \<times> pydict) list"

definition start_realtime_monitoring ::
  "py_error option \<Rightarrow> (string \<Rightarrow> nat option) \<Rightarrow> delivery list \<Rightarrow> monitor
     \<Rightarrow> log_line list \<times> monitor" where
  "start_realtime_monitoring subscribe to_datetime deliveries self =
     (case subscribe of
        Some e \<Rightarrow> ([Error_in_monitoring e], self)
      | None \<Rightarrow>
          fold (\<lambda>(select, payload) (out, s).
                  let (lines, s') = handle_broadcast select to_datetime payload s
                  in (out @ lines, s'))
            deliveries ([Monitoring_started], self))"

text \<open>
  An example run: the table holds the two records of the scenario, the notification is the
  one for the second record, and the monitor is a freshly constructed one.
\<close>

definition scenario_table :: "emission_row list" where
  "scenario_table =
     [\<lparr>cloud_service_provider = ''A'', location = ''X'', energy_consumption = 10,
       total_emissions = 100, renewable_energy_usage = 50, ai_workload = 30, pue = 3 / 2,
       uploaded_at = ''2024-01-01T00:00:00''\<rparr>,
      \<lparr>cloud_service_provider = ''A'', location = ''X'', energy_consumption = 20,
       total_emissions = 200, renewable_energy_usage = 60, ai_workload = 40, pue = 3 / 2,
       uploaded_at = ''2024-01-01T00:00:05''\<rparr>]"

definition scenario_payload :: "(string \<times> pydict) list" where
  "scenario_payload =
     [(''new'', [(''cloud_service_provider'', Str ''A''), (''total_emissions'', Num 200),
                 (''uploaded_at'', Str ''2024-01-01T00:00:05'')])]"

definition to_datetime_2024 :: "string \<Rightarrow> nat option" where
  "to_datetime_2024 text =
     (if text = ''2024-01-01T00:00:00'' then Some 1704067200
      else if text = ''2024-01-01T00:00:05'' then Some 1704067205
      else None)"

definition new_monitor :: monitor where
  "new_monitor =
     \<lparr>current_emissions = [], ax00 = cleared, ax01 = cleared, ax10 = cleared, ax11 = cleared\<rparr>"

section \<open>Alert checks of the dashboard (\<open>dashboard_new.py\<close>)\<close>

datatype level = Critical | Warning | Info

text \<open>
  An alert is a dictionary with the keys \<open>level\<close>, \<open>message\<close> and \<open>details\<close>. The
  message interpolates the number of selected facilities into a fixed text; the model
  keeps that number. The details are a fixed text, or for the emissions rule the average
  excess over the threshold (before it is formatted).
\<close>

datatype details = Average_excess rat | Fixed_text string

record alert =
  level :: level
  message_count :: nat
  details :: details

definition emissions_threshold :: "facility list \<Rightarrow> rat" where
  "emissions_threshold df = series_mean (map total_emissions df) * (3 / 2)"

definition high_emitters :: "facility list \<Rightarrow> facility list" where
  "high_emitters df = filter (\<lambda>r. total_emissions r > emissions_threshold df) df"

definition low_renewable :: "facility list \<Rightarrow> facility list" where
  "low_renewable df = filter (\<lambda>r. renewable_energy_usage r < 30) df"

definition inefficient :: "facility list \<Rightarrow> facility list" where
  "inefficient df = filter (\<lambda>r. pue r > 9 / 5) df"

definition check_alerts :: "facility list \<Rightarrow> alert list" where
  "check_alerts df =
    (let alerts0 = [];
         alerts1 =
           (if high_emitters df \<noteq> [] then
              alerts0 @ [\<lparr>level = Critical, message_count = length (high_emitters df),
                 details = Average_excess
                   (series_mean (map total_emissions (high_emitters df))
                      - emissions_threshold df)\<rparr>]
            else alerts0);
         alerts2 =
           (if low_renewable df \<noteq> [] then
              alerts1 @ [\<lparr>level = Warning, message_count = length (low_renewable df),
                 details = Fixed_text ''Consider increasing renewable energy sources''\<rparr>]
            else alerts1);
         alerts3 =
           (if inefficient df \<noteq> [] then
              alerts2 @ [\<lparr>level = Info, message_count = length (inefficient df),
                 details = Fixed_text ''Optimization opportunity identified''\<rparr>]
            else alerts2)
     in alerts3)"

text \<open>
  The dashboard script is run again from the top on every interaction or refresh; each run
  evaluates \<open>alerts = check_alerts(df_filtered)\<close> on the frame of that run and keeps
  nothing from the run before. A sequence of successive evaluations is the list of the
  frames they see.
\<close>

definition successive_check_alerts :: "facility list list \<Rightarrow> alert list list" where
  "successive_check_alerts dfs = map check_alerts dfs"

text \<open>Example frames.\<close>

definition facility_pue_2 :: facility where
  "facility_pue_2 =
     \<lparr>cloud_service_provider = ''A'', location = ''London'', energy_consumption = 10,
      total_emissions = 100, renewable_energy_usage = 50, ai_workload = 30, pue = 2\<rparr>"

definition facility_at_thresholds :: facility where
  "facility_at_thresholds =
     \<lparr>cloud_service_provider = ''A'', location = ''London'', energy_consumption = 10,
      total_emissions = 100, renewable_energy_usage = 30, ai_workload = 30, pue = 9 / 5\<rparr>"

definition facility_with_emissions :: "rat \<Rightarrow> facility" where
  "facility_with_emissions e = facility_at_thresholds\<lparr>total_emissions := e\<rparr>"

definition frame_at_thresholds :: "facility list" where
  "frame_at_thresholds =
     [facility_with_emissions 200, facility_with_emissions 100, facility_with_emissions 100]"

section \<open>The API collector (\<open>api_collector.py\<close>)\<close>

text \<open>
  What \<open>response.json()\<close> returns. An object is a Python dictionary, so its keys are
  distinct.
\<close>

datatype json =
    JObject "(string \<times> json) list"
  | JArray "json list"
  | JString string
  | JNumber rat
  | JBool bool
  | JNull

text \<open>The truth value that \<open>if data:\<close> tests.\<close>

definition truthy :: "json \<Rightarrow> bool" where
  "truthy j =
     (case j of
        JObject kvs \<Rightarrow> kvs \<noteq> []
      | JArray xs \<Rightarrow> xs \<noteq> []
      | JString s \<Rightarrow> s \<noteq> []
      | JNumber n \<Rightarrow> n \<noteq> 0
      | JBool b \<Rightarrow> b
      | JNull \<Rightarrow> False)"

text \<open>\<open>data.get(key, dflt)\<close>: only a dictionary has the method.\<close>

definition json_get :: "json \<Rightarrow> string \<Rightarrow> json \<Rightarrow> py_error + json" where
  "json_get data key dflt =
     (case data of
        JObject kvs \<Rightarrow> Inr (case map_of kvs key of Some v \<Rightarrow> v | None \<Rightarrow> dflt)
      | _ \<Rightarrow> Inl (AttributeError ''get''))"

text \<open>
  The outcome of \<open>requests.get(url, headers=headers)\<close>, \<open>raise_for_status()\<close> and
  \<open>json()\<close> together: a \<open>RequestException\<close> (time-out, connection error, HTTP error
  status such as 401), another exception, or the decoded body. A header value may be
  \<open>None\<close>.
\<close>

datatype http_outcome =
    Raises_request_exception string
  | Raises_other py_error
  | Returns json

type_synonym headers = "(string \<times> string option) list"

type_synonym http = "string \<Rightarrow> headers \<Rightarrow> http_outcome"

datatype api_log = API_request_failed string

type_synonym frame = "(string \<times> json) list list"

record collector =
  gcp_api_key :: "string option"
  aws_api_key :: "string option"
  azure_api_key :: "string option"
  base_urls :: "(string \<times> string) list"
  data_sources :: "(string \<times> string) list"
  data_dir :: string
  raw_dir :: string

text \<open>
  \<open>CarbonDataCollector.__init__\<close>. \<open>getenv\<close> is \<open>os.getenv\<close> after \<open>load_dotenv()\<close>
  (\<open>None\<close> for a variable that is not set); \<open>mkdir\<close> is the outcome of creating the
  raw-data directory.
\<close>

definition CarbonDataCollector_init ::
  "(string \<Rightarrow> string option) \<Rightarrow> (string \<Rightarrow> py_error option) \<Rightarrow> py_error + collector" where
  "CarbonDataCollector_init getenv mkdir =
     (let self = \<lparr>gcp_api_key = getenv ''GCP_API_KEY'',
                  aws_api_key = getenv ''AWS_API_KEY'',
                  azure_api_key = getenv ''AZURE_API_KEY'',
                  base_urls =
                    [(''gcp'', ''https://cloudasset.googleapis.com/v1''),
                     (''aws'', ''https://sustainability.aws.amazon.com/v1''),
                     (''azure'', ''https://management.azure.com/sustainability/v1'')],
                  data_sources =
                    [(''electricity_factors'',
                        ''https://api.climatiq.io/data/v1/electricity_factors''),
                     (''github_data'',
                        ''https://raw.githubusercontent.com/owid/co2-data/master/owid-co2-data.csv''),
                     (''energy_data'',
                        ''https://raw.githubusercontent.com/owid/energy-data/master/owid-energy-data.csv'')],
                  data_dir = ''data'',
                  raw_dir = ''data/raw''\<rparr>
      in case mkdir (raw_dir self) of
           Some e \<Rightarrow> Inl e
         | None \<Rightarrow> Inr self)"

text \<open>How an f-string formats a key that is a string or \<open>None\<close>.\<close>

definition py_str :: "string option \<Rightarrow> string" where
  "py_str v = (case v of None \<Rightarrow> ''None'' | Some s \<Rightarrow> s)"

definition make_api_request ::
  "http \<Rightarrow> string \<Rightarrow> headers \<Rightarrow> api_log list \<times> (py_error + json option)" where
  "make_api_request http url hdrs =
     (case http url hdrs of
        Returns j \<Rightarrow> ([], Inr (Some j))
      | Raises_request_exception m \<Rightarrow> ([API_request_failed m], Inr None)
      | Raises_other e \<Rightarrow> ([], Inl e))"

text \<open>
  The three collectors differ in their headers, their URL, the provider name and the keys
  they read. \<open>one_row_frame\<close> is their common \<open>if data: return pd.DataFrame({...})\<close> with
  \<open>return pd.DataFrame()\<close> after it.
\<close>

definition one_row_frame ::
  "string \<Rightarrow> string \<Rightarrow> string \<Rightarrow> string \<Rightarrow> string \<Rightarrow> json option \<Rightarrow> py_error + frame" where
  "one_row_frame now name energy_key carbon_key transfer_key data =
     (case data of
        None \<Rightarrow> Inr []
      | Some d \<Rightarrow>
          if truthy d then
            (case json_get d energy_key (JNumber 0) of
               Inl e \<Rightarrow> Inl e
             | Inr energy \<Rightarrow>
                 (case json_get d carbon_key (JNumber 0) of
                    Inl e \<Rightarrow> Inl e
                  | Inr carbon \<Rightarrow>
                      (case json_get d transfer_key (JNumber 0) of
                         Inl e \<Rightarrow> Inl e
                       | Inr transfer \<Rightarrow>
                           Inr [ [(''timestamp'', JString now),
                                 (''provider'', JString name),
                                 (''energy_consumption'', energy),
                                 (''carbon_emissions'', carbon),
                                 (''data_transfer'', transfer)] ])))
          else Inr [])"

definition gcp_headers :: "collector \<Rightarrow> headers" where
  "gcp_headers self =
     [(''Authorization'', Some (''Bearer '' @ py_str (gcp_api_key self))),
      (''Content-Type'', Some ''application/json'')]"

definition aws_headers :: "collector \<Rightarrow> headers" where
  "aws_headers self =
     [(''x-api-key'', aws_api_key self),
      (''Content-Type'', Some ''application/json'')]"

definition azure_headers :: "collector \<Rightarrow> headers" where
  "azure_headers self =
     [(''Authorization'', Some (''Bearer '' @ py_str (azure_api_key self))),
      (''Content-Type'', Some ''application/json'')]"

definition collect_from ::
  "collector \<Rightarrow> http \<Rightarrow> string \<Rightarrow> string \<Rightarrow> headers \<Rightarrow> (json option \<Rightarrow> py_error + frame)
     \<Rightarrow> api_log list \<times> (py_error + frame)" where
  "collect_from self http key path hdrs build =
     (case map_of (base_urls self) key of
        None \<Rightarrow> ([], Inl (KeyError key))
      | Some base \<Rightarrow>
          (case make_api_request http (base @ path) hdrs of
             (out, Inl e) \<Rightarrow> (out, Inl e)
           | (out, Inr data) \<Rightarrow> (out, build data)))"

definition collect_gcp_data :: "collector \<Rightarrow> http \<Rightarrow> string \<Rightarrow> api_log list \<times> (py_error + frame)" where
  "collect_gcp_data self http now =
     collect_from self http ''gcp'' ''/sustainability/metrics'' (gcp_headers self)
       (one_row_frame now ''GCP'' ''energy_kwh'' ''carbon_kg'' ''network_gb'')"

definition collect_aws_data :: "collector \<Rightarrow> http \<Rightarrow> string \<Rightarrow> api_log list \<times> (py_error + frame)" where
  "collect_aws_data self http now =
     collect_from self http ''aws'' ''/carbon-metrics'' (aws_headers self)
       (one_row_frame now ''AWS'' ''energy_consumption'' ''co2_emissions'' ''data_transfer'')"

definition collect_azure_data :: "collector \<Rightarrow> http \<Rightarrow> string \<Rightarrow> api_log list \<times> (py_error + frame)" where
  "collect_azure_data self http now =
     collect_from self http ''azure'' ''/emissions'' (azure_headers self)
       (one_row_frame now ''Azure'' ''energy_usage'' ''carbon_footprint'' ''network_usage'')"

text \<open>
  \<open>collect_cloud_data\<close>: the three collectors in turn, their frames concatenated, the
  result saved when it is not empty. \<open>clock\<close> gives the time at which a provider's frame
  is built; \<open>save\<close> is the outcome of \<open>save_raw_data\<close>. An exception of a collector or
  of the save ends the call.
\<close>

definition collect_cloud_data ::
  "collector \<Rightarrow> http \<Rightarrow> (string \<Rightarrow> string) \<Rightarrow> (frame \<Rightarrow> string \<Rightarrow> py_error option)
     \<Rightarrow> api_log list \<times> (py_error + frame)" where
  "collect_cloud_data self http clock save =
     (case collect_gcp_data self http (clock ''GCP'') of
        (out1, Inl e) \<Rightarrow> (out1, Inl e)
      | (out1, Inr gcp_data) \<Rightarrow>
          (case collect_aws_data self http (clock ''AWS'') of
             (out2, Inl e) \<Rightarrow> (out1 @ out2, Inl e)
           | (out2, Inr aws_data) \<Rightarrow>
               (case collect_azure_data self http (clock ''Azure'') of
                  (out3, Inl e) \<Rightarrow> (out1 @ out2 @ out3, Inl e)
                | (out3, Inr azure_data) \<Rightarrow>
                    (let combined_df = gcp_data @ aws_data @ azure_data
                     in if combined_df \<noteq> [] then
                          (case save combined_df ''all_providers'' of
                             Some e \<Rightarrow> (out1 @ out2 @ out3, Inl e)
                           | None \<Rightarrow> (out1 @ out2 @ out3, Inr combined_df))
                        else (out1 @ out2 @ out3, Inr combined_df)))))"

text \<open>
  Whether a source's request yields a batch (a response that is a non-empty JSON value),
  and whether it failed with a \<open>RequestException\<close>.
\<close>

definition delivers :: "http_outcome \<Rightarrow> bool" where
  "delivers outcome = (case outcome of Returns j \<Rightarrow> truthy j | _ \<Rightarrow> False)"

definition request_failed :: "http_outcome \<Rightarrow> bool" where
  "request_failed outcome =
     (case outcome of Raises_request_exception m \<Rightarrow> True | _ \<Rightarrow> False)"

text \<open>Example environments and services.\<close>

definition no_environment :: "string \<Rightarrow> string option" where
  "no_environment name = None"

definition mkdir_ok :: "string \<Rightarrow> py_error option" where
  "mkdir_ok path = None"

definition save_ok :: "frame \<Rightarrow> string \<Rightarrow> py_error option" where
  "save_ok df name = None"

definition keyless_collector :: collector where
  "keyless_collector =
     \<lparr>gcp_api_key = None, aws_api_key = None, azure_api_key = None,
      base_urls =
        [(''gcp'', ''https://cloudasset.googleapis.com/v1''),
         (''aws'', ''https://sustainability.aws.amazon.com/v1''),
         (''azure'', ''https://management.azure.com/sustainability/v1'')],
      data_sources =
        [(''electricity_factors'', ''https://api.climatiq.io/data/v1/electricity_factors''),
         (''github_data'',
            ''https://raw.githubusercontent.com/owid/co2-data/master/owid-co2-data.csv''),
         (''energy_data'',
            ''https://raw.githubusercontent.com/owid/energy-data/master/owid-energy-data.csv'')],
      data_dir = ''data'',
      raw_dir = ''data/raw''\<rparr>"

text \<open>A service on which the request to GCP times out and the other two answer.\<close>

definition http_gcp_times_out :: http where
  "http_gcp_times_out url hdrs =
     (if url = ''https://cloudasset.googleapis.com/v1/sustainability/metrics''
      then Raises_request_exception ''Read timed out''
      else if url = ''https://sustainability.aws.amazon.com/v1/carbon-metrics''
      then Returns (JObject [(''energy_consumption'', JNumber 12), (''co2_emissions'', JNumber 7)])
      else Returns (JObject [(''energy_usage'', JNumber 9), (''carbon_footprint'', JNumber 4)]))"

text \<open>A service that rejects the credential \<open>Bearer None\<close> and accepts any other.\<close>

definition http_rejects_missing_key :: http where
  "http_rejects_missing_key url hdrs =
     (if map_of hdrs ''Authorization'' = Some (Some ''Bearer None'')
      then Raises_request_exception ''401 Client Error: Unauthorized''
      else Returns (JObject [(''energy_kwh'', JNumber 5)]))"

text \<open>A service that reports a negative energy and nothing else out of the ordinary.\<close>

definition http_negative_energy :: http where
  "http_negative_energy url hdrs =
     Returns (JObject [(''energy_kwh'', JNumber (- 5)), (''carbon_kg'', JNumber 10)])"

definition time0 :: "string \<Rightarrow> string" where
  "time0 name = ''2024-01-01 00:00:00''"

section \<open>Loading the data of the dashboard (\<open>dashboard_new.py\<close>)\<close>

definition LOCATION_COORDS :: "(string \<times> rat \<times> rat) list" where
  "LOCATION_COORDS =
     [(''California'', 367783 / 10000, - (1194179 / 10000)),
      (''Virginia'', 377693 / 10000, - (781700 / 10000)),
      (''London'', 515074 / 10000, - (1278 / 10000)),
      (''Sydney'', - (338688 / 10000), 1512093 / 10000),
      (''Mumbai'', 190760 / 10000, 728777 / 10000),
      (''Dublin'', 533498 / 10000, - (62603 / 10000)),
      (''Singapore'', 13521 / 10000, 1038198 / 10000),
      (''Berlin'', 525200 / 10000, 134050 / 10000),
      (''Tokyo'', 356762 / 10000, 1396503 / 10000),
      (''Toronto'', 436532 / 10000, - (798332 / 10000))]"

text \<open>
  The derived columns are computed with pandas' floating-point arithmetic, which does not
  raise on a zero divisor: the cell becomes \<open>inf\<close> or \<open>NaN\<close>, and the rows around it are
  computed as usual. So that nothing about this arithmetic is assumed, \<open>load_data\<close> takes
  it as a parameter: the number a cell or a literal denotes (\<open>fnum\<close>), the four operations
  on cells, and \<open>Series.max()\<close> (\<open>fmax\<close>). The IEEE doubles are one such arithmetic.
\<close>

record 'n arithmetic =
  fnum :: "rat \<Rightarrow> 'n"
  fadd :: "'n \<Rightarrow> 'n \<Rightarrow> 'n"
  fsub :: "'n \<Rightarrow> 'n \<Rightarrow> 'n"
  fmul :: "'n \<Rightarrow> 'n \<Rightarrow> 'n"
  fdiv :: "'n \<Rightarrow> 'n \<Rightarrow> 'n"
  fmax :: "'n list \<Rightarrow> 'n"

record 'n loaded_facility = facility +
  energy_efficiency :: 'n
  sustainability_score :: 'n
  latitude :: rat
  longitude :: rat

text \<open>
  \<open>df['Energy Efficiency'] = df['Energy Consumption (MWh)'] / df['Total Emissions (kg CO2e)']\<close>
\<close>

definition energy_efficiency_column :: "'n arithmetic \<Rightarrow> facility list \<Rightarrow> 'n list" where
  "energy_efficiency_column A df =
     map (\<lambda>r. fdiv A (fnum A (energy_consumption r)) (fnum A (total_emissions r))) df"

text \<open>
  \<open>df['Sustainability Score'] = (df['Renewable Energy Usage (%)'] / 100 * 0.4 +
     (2.0 - df['PUE (Power Usage Effectiveness)']) / 1.0 * 0.3 +
     df['Energy Efficiency'] / df['Energy Efficiency'].max() * 0.3)\<close>,
  row by row, with Python's precedence: the sum of the first two products, plus the third.
\<close>

definition sustainability_score_column ::
  "'n arithmetic \<Rightarrow> facility list \<Rightarrow> 'n list \<Rightarrow> 'n list" where
  "sustainability_score_column A df efficiency =
     (let maximum = fmax A efficiency
      in map (\<lambda>(r, e).
           fadd A
             (fadd A
                (fmul A (fdiv A (fnum A (renewable_energy_usage r)) (fnum A 100))
                   (fnum A (2 / 5)))
                (fmul A (fdiv A (fsub A (fnum A 2) (fnum A (pue r))) (fnum A 1))
                   (fnum A (3 / 10))))
             (fmul A (fdiv A e maximum) (fnum A (3 / 10))))
         (zip df efficiency))"

text \<open>
  \<open>load_data\<close>. \<open>read_csv\<close> is the outcome of reading the CSV file. Any exception, the
  \<open>KeyError\<close> for a location without coordinates included, is shown with \<open>st.error\<close> and
  makes the function return \<open>None\<close>.
\<close>

definition load_data ::
  "'n arithmetic \<Rightarrow> (py_error + facility list)
     \<Rightarrow> py_error option \<times> 'n loaded_facility list option" where
  "load_data A read_csv =
     (case read_csv of
        Inl e \<Rightarrow> (Some e, None)
      | Inr df \<Rightarrow>
          (let efficiency = energy_efficiency_column A df;
               score = sustainability_score_column A df efficiency
           in case find (\<lambda>r. map_of LOCATION_COORDS (location r) = None) df of
                Some r \<Rightarrow> (Some (KeyError (location r)), None)
              | None \<Rightarrow>
                  (None,
                   Some (map (\<lambda>(r, e, s).
                      \<lparr>cloud_service_provider = cloud_service_provider r,
                       location = location r,
                       energy_consumption = energy_consumption r,
                       total_emissions = total_emissions r,
                       renewable_energy_usage = renewable_energy_usage r,
                       ai_workload = ai_workload r,
                       pue = pue r,
                       energy_efficiency = e,
                       sustainability_score = s,
                       latitude = fst (the (map_of LOCATION_COORDS (location r))),
                       longitude = snd (the (map_of LOCATION_COORDS (location r)))\<rparr>)
                     (zip df (zip efficiency score))))))"

text \<open>
  The weighted blend in the words of the specification:
  \<open>(renewable / 100) * 0.4 + ((2.0 - pue) / 1.0) * 0.3 + (efficiency / maximum) * 0.3\<close>.
\<close>

definition weighted_blend :: "'n arithmetic \<Rightarrow> 'n \<Rightarrow> 'n \<Rightarrow> 'n \<Rightarrow> 'n \<Rightarrow> 'n" where
  "weighted_blend A renewable pue_value efficiency maximum =
     fadd A
       (fadd A
          (fmul A (fdiv A renewable (fnum A 100)) (fnum A (2 / 5)))
          (fmul A (fdiv A (fsub A (fnum A 2) pue_value) (fnum A 1)) (fnum A (3 / 10))))
       (fmul A (fdiv A efficiency maximum) (fnum A (3 / 10)))"

text \<open>
  An arithmetic for the examples: exact rational values extended by the two infinities and
  \<open>NaN\<close>, with the rules of IEEE arithmetic for them. Rounding and the sign of zero are
  not represented.
\<close>

datatype xnum = Fin rat | PInf | NInf | NaN

fun xneg :: "xnum \<Rightarrow> xnum" where
  "xneg (Fin a) = Fin (- a)"
| "xneg PInf = NInf"
| "xneg NInf = PInf"
| "xneg NaN = NaN"

fun xadd :: "xnum \<Rightarrow> xnum \<Rightarrow> xnum" where
  "xadd NaN y = NaN"
| "xadd x NaN = NaN"
| "xadd (Fin a) (Fin b) = Fin (a + b)"
| "xadd (Fin a) y = y"
| "xadd x (Fin b) = x"
| "xadd PInf PInf = PInf"
| "xadd NInf NInf = NInf"
| "xadd PInf NInf = NaN"
| "xadd NInf PInf = NaN"

definition xsub :: "xnum \<Rightarrow> xnum \<Rightarrow> xnum" where
  "xsub x y = xadd x (xneg y)"

text \<open>The sign of a value that is not \<open>NaN\<close>: \<open>-1\<close>, \<open>0\<close> or \<open>1\<close>.\<close>

fun xsgn :: "xnum \<Rightarrow> int" where
  "xsgn (Fin a) = (if a < 0 then - 1 else if a = 0 then 0 else 1)"
| "xsgn PInf = 1"
| "xsgn NInf = - 1"
| "xsgn NaN = 0"

definition signed_inf :: "int \<Rightarrow> xnum" where
  "signed_inf s = (if s < 0 then NInf else PInf)"

fun xmul :: "xnum \<Rightarrow> xnum \<Rightarrow> xnum" where
  "xmul NaN y = NaN"
| "xmul x NaN = NaN"
| "xmul (Fin a) (Fin b) = Fin (a * b)"
| "xmul x y = (if xsgn x * xsgn y = 0 then NaN else signed_inf (xsgn x * xsgn y))"

fun xdiv :: "xnum \<Rightarrow> xnum \<Rightarrow> xnum" where
  "xdiv NaN y = NaN"
| "xdiv x NaN = NaN"
| "xdiv (Fin a) (Fin b) =
     (if b \<noteq> 0 then Fin (a / b) else if a = 0 then NaN else signed_inf (xsgn (Fin a)))"
| "xdiv (Fin a) y = Fin 0"
| "xdiv x (Fin b) = (if b < 0 then xneg x else x)"
| "xdiv x y = NaN"

fun xless :: "xnum \<Rightarrow> xnum \<Rightarrow> bool" where
  "xless (Fin a) (Fin b) = (a < b)"
| "xless NInf (Fin b) = True"
| "xless NInf PInf = True"
| "xless (Fin a) PInf = True"
| "xless x y = False"

text \<open>\<open>Series.max()\<close> skips \<open>NaN\<close>; it is \<open>NaN\<close> when nothing is left.\<close>

definition xmax :: "xnum list \<Rightarrow> xnum" where
  "xmax cells =
     (case filter (\<lambda>x. x \<noteq> NaN) cells of
        [] \<Rightarrow> NaN
      | x # xs \<Rightarrow> fold (\<lambda>y m. if xless m y then y else m) xs x)"

definition extended_arithmetic :: "xnum arithmetic" where
  "extended_arithmetic =
     \<lparr>fnum = Fin, fadd = xadd, fsub = xsub, fmul = xmul, fdiv = xdiv, fmax = xmax\<rparr>"

text \<open>Two facilities at known locations.\<close>

definition london_and_tokyo :: "facility list" where
  "london_and_tokyo =
     [\<lparr>cloud_service_provider = ''A'', location = ''London'', energy_consumption = 10,
       total_emissions = 100, renewable_energy_usage = 50, ai_workload = 30, pue = 3 / 2\<rparr>,
      \<lparr>cloud_service_provider = ''B'', location = ''Tokyo'', energy_consumption = 40,
       total_emissions = 200, renewable_energy_usage = 80, ai_workload = 20, pue = 6 / 5\<rparr>]"

text \<open>The same two facilities and one that reports no emissions.\<close>

definition with_zero_emissions :: "facility list" where
  "with_zero_emissions =
     london_and_tokyo @
     [\<lparr>cloud_service_provider = ''C'', location = ''Berlin'', energy_consumption = 5,
       total_emissions = 0, renewable_energy_usage = 100, ai_workload = 10, pue = 1\<rparr>]"

section \<open>The simulation of real-time data (\<open>realtime_monitor.py\<close>)\<close>

text \<open>
  \<open>RealtimeEmissionMonitor.__init__\<close>: the URL and the key of the store are read from
  the environment and handed to \<open>create_client\<close> as they are; then the figure is set up.
  \<open>create_client\<close> and the set-up of the figure are external and may raise.
\<close>

definition RealtimeEmissionMonitor_init ::
  "(string \<Rightarrow> string option) \<Rightarrow> (string option \<Rightarrow> string option \<Rightarrow> py_error + 'client)
     \<Rightarrow> py_error option \<Rightarrow> py_error + 'client \<times> monitor" where
  "RealtimeEmissionMonitor_init getenv create_client pyplot =
     (case create_client (getenv ''SUPABASE_URL'') (getenv ''SUPABASE_KEY'') of
        Inl e \<Rightarrow> Inl e
      | Inr client \<Rightarrow>
          (case pyplot of
             Some e \<Rightarrow> Inl e
           | None \<Rightarrow>
               Inr (client, \<lparr>current_emissions = [], ax00 = cleared, ax01 = cleared,
                             ax10 = cleared, ax11 = cleared\<rparr>)))"

text \<open>
  The names bound at the top level of \<open>realtime_monitor.py\<close>, by its imports and its two
  definitions. A name that is neither local, nor one of these, nor a builtin raises
  \<open>NameError\<close> when it is read; \<open>np\<close> is not a builtin.
\<close>

definition module_globals :: "string list" where
  "module_globals =
     [''os'', ''create_client'', ''Client'', ''load_dotenv'', ''pd'', ''datetime'', ''time'',
      ''json'', ''plt'', ''FuncAnimation'', ''sns'', ''clear_output'',
      ''RealtimeEmissionMonitor'', ''simulate_real_time_data'']"

definition load_global :: "string \<Rightarrow> py_error + string" where
  "load_global name = (if name \<in> set module_globals then Inr name else Inl (NameError name))"

text \<open>\<open>d[key] = value\<close> on a dictionary in key order.\<close>

definition dict_set :: "pydict \<Rightarrow> string \<Rightarrow> pyval \<Rightarrow> pydict" where
  "dict_set d key v =
     (if key \<in> fst ` set d then map (\<lambda>(k, w). if k = key then (k, v) else (k, w)) d
      else d @ [(key, v)])"

text \<open>\<open>value * factor\<close> for a float factor: only a number can be multiplied.\<close>

definition py_mul :: "pyval \<Rightarrow> rat \<Rightarrow> py_error + pyval" where
  "py_mul v factor =
     (case v of
        Num x \<Rightarrow> Inr (Num (x * factor))
      | _ \<Rightarrow> Inl (TypeError ''*''))"

text \<open>
  \<open>random_record[key] *= (1 + np.random.uniform(lo, hi))\<close>. An augmented assignment reads
  the target first, so a missing key raises \<open>KeyError\<close> before the right-hand side is
  evaluated; the right-hand side then reads the global name \<open>np\<close>. \<open>u\<close> is the number the
  random generator would draw.
\<close>

definition scale_entry :: "pydict \<Rightarrow> string \<Rightarrow> rat \<Rightarrow> py_error + pydict" where
  "scale_entry random_record key u =
     (case map_of random_record key of
        None \<Rightarrow> Inl (KeyError key)
      | Some v \<Rightarrow>
          (case load_global ''np'' of
             Inl e \<Rightarrow> Inl e
           | Inr np \<Rightarrow>
               (case py_mul v (1 + u) of
                  Inl e \<Rightarrow> Inl e
                | Inr v' \<Rightarrow> Inr (dict_set random_record key v'))))"

text \<open>
  What one run of the simulation is given from outside, for its k-th iteration: the row
  that \<open>sample(n=1)\<close> picks, the time, the two random draws, and the outcome of the insert
  into the store.
\<close>

record sim_env =
  pick_row :: "nat \<Rightarrow> nat"
  time_at :: "nat \<Rightarrow> string"
  draw_emissions :: "nat \<Rightarrow> rat"
  draw_ai_workload :: "nat \<Rightarrow> rat"
  insert_outcome :: "nat \<Rightarrow> pydict \<Rightarrow> py_error option"

datatype sim_line = Uploaded_new_data_point | Error_uploading_data py_error

record sim_trace =
  inserted :: "pydict list"
  lines :: "sim_line list"

text \<open>
  One iteration of the loop: it raises, or it has tried the insert and printed a line.
  Sampling one row from an empty frame raises \<open>ValueError\<close>.
\<close>

definition simulate_iteration ::
  "sim_env \<Rightarrow> pydict list \<Rightarrow> nat \<Rightarrow> sim_trace \<Rightarrow> py_error + sim_trace" where
  "simulate_iteration env base_data k trace =
     (if base_data = [] then Inl (ValueError ''sample'')
      else
        let random_record0 = base_data ! (pick_row env k mod length base_data);
            random_record1 = dict_set random_record0 ''uploaded_at'' (Str (time_at env k))
        in case scale_entry random_record1 ''total_emissions'' (draw_emissions env k) of
             Inl e \<Rightarrow> Inl e
           | Inr random_record2 \<Rightarrow>
               (case scale_entry random_record2 ''ai_workload'' (draw_ai_workload env k) of
                  Inl e \<Rightarrow> Inl e
                | Inr random_record \<Rightarrow>
                    (case insert_outcome env k random_record of
                       None \<Rightarrow>
                         Inr (trace\<lparr>inserted := inserted trace @ [random_record],
                                     lines := lines trace @ [Uploaded_new_data_point]\<rparr>)
                     | Some e \<Rightarrow>
                         Inr (trace\<lparr>lines := lines trace @ [Error_uploading_data e]\<rparr>))))"

text \<open>
  The loop \<open>while True\<close> never ends by itself. \<open>fuel\<close> bounds the number of iterations
  that are followed: the loop either has raised within them, or is still running.
\<close>

datatype sim_outcome = Raised py_error | Still_running

fun simulate_loop ::
  "sim_env \<Rightarrow> pydict list \<Rightarrow> nat \<Rightarrow> nat \<Rightarrow> sim_trace \<Rightarrow> sim_trace \<times> sim_outcome" where
  "simulate_loop env base_data 0 k trace = (trace, Still_running)"
| "simulate_loop env base_data (Suc fuel) k trace =
     (case simulate_iteration env base_data k trace of
        Inl e \<Rightarrow> (trace, Raised e)
      | Inr trace' \<Rightarrow> simulate_loop env base_data fuel (Suc k) trace')"

text \<open>
  \<open>simulate_real_time_data\<close>: \<open>constructed\<close> is the outcome of
  \<open>RealtimeEmissionMonitor()\<close>, \<open>read_csv\<close> the outcome of reading the CSV file, whose
  rows are dictionaries from the column names of the file.
\<close>

definition simulate_real_time_data ::
  "(py_error + 'client \<times> monitor) \<Rightarrow> (py_error + pydict list) \<Rightarrow> sim_env \<Rightarrow> nat
     \<Rightarrow> sim_trace \<times> sim_outcome" where
  "simulate_real_time_data constructed read_csv env fuel =
     (case constructed of
        Inl e \<Rightarrow> (\<lparr>inserted = [], lines = []\<rparr>, Raised e)
      | Inr db_manager \<Rightarrow>
          (case read_csv of
             Inl e \<Rightarrow> (\<lparr>inserted = [], lines = []\<rparr>, Raised e)
           | Inr base_data \<Rightarrow>
               simulate_loop env base_data fuel 0 \<lparr>inserted = [], lines = []\<rparr>))"

text \<open>
  Example inputs: a monitor that was constructed, an environment in which every insert
  would succeed, a CSV file with the column names of the emissions database, and one
  with the column names that the simulation reads.
\<close>

definition constructed_ok :: "py_error + unit \<times> monitor" where
  "constructed_ok =
     Inr ((), \<lparr>current_emissions = [], ax00 = cleared, ax01 = cleared,
               ax10 = cleared, ax11 = cleared\<rparr>)"

definition env_ok :: sim_env where
  "env_ok =
     \<lparr>pick_row = (\<lambda>k. 0), time_at = (\<lambda>k. ''2024-01-01T00:00:00''),
      draw_emissions = (\<lambda>k. 1 / 20), draw_ai_workload = (\<lambda>k. 1 / 50),
      insert_outcome = (\<lambda>k record. None)\<rparr>"

definition database_csv :: "pydict list" where
  "database_csv =
     [ [(''Cloud Service Provider'', Str ''A''), (''Location'', Str ''London''),
       (''Energy Consumption (MWh)'', Num 10), (''Total Emissions (kg CO2e)'', Num 100),
       (''Renewable Energy Usage (%)'', Num 50), (''AI Workload (%)'', Num 30),
       (''PUE (Power Usage Effectiveness)'', Num (3 / 2))] ]"

definition snake_case_csv :: "pydict list" where
  "snake_case_csv =
     [ [(''cloud_service_provider'', Str ''A''), (''total_emissions'', Num 100),
       (''ai_workload'', Num 30), (''renewable_energy_usage'', Num 50)] ]"

section \<open>Properties of the alert checks\<close>

lemma check_alerts_levels:
  "map level (check_alerts df) =
     (if high_emitters df \<noteq> [] then [Critical] else [])
     @ (if low_renewable df \<noteq> [] then [Warning] else [])
     @ (if inefficient df \<noteq> [] then [Info] else [])"
  by (simp add: check_alerts_def)

lemma level_in_check_alerts:
  "Critical \<in> level ` set (check_alerts df) \<longleftrightarrow> high_emitters df \<noteq> []"
  "Warning \<in> level ` set (check_alerts df) \<longleftrightarrow> low_renewable df \<noteq> []"
  "Info \<in> level ` set (check_alerts df) \<longleftrightarrow> inefficient df \<noteq> []"
proof -
  have eq: "level ` set (check_alerts df) = set (map level (check_alerts df))"
    by simp
  show "Critical \<in> level ` set (check_alerts df) \<longleftrightarrow> high_emitters df \<noteq> []"
    unfolding eq check_alerts_levels by simp
  show "Warning \<in> level ` set (check_alerts df) \<longleftrightarrow> low_renewable df \<noteq> []"
    unfolding eq check_alerts_levels by simp
  show "Info \<in> level ` set (check_alerts df) \<longleftrightarrow> inefficient df \<noteq> []"
    unfolding eq check_alerts_levels by simp
qed

lemma frame_at_thresholds_threshold: "emissions_threshold frame_at_thresholds = 200"
  by (simp add: emissions_threshold_def series_mean_def frame_at_thresholds_def
      facility_with_emissions_def facility_at_thresholds_def)

text \<open>
  C3, the claim as stated fails. The frame \<open>[facility_pue_2]\<close> has a facility with PUE 2,
  so the PUE rule is triggered; two successive evaluations of that frame both emit the
  \<open>info\<close> alert, although the rule stayed triggered in between.
\<close>

theorem check_alerts_repeats_while_triggered:
  "map (map level) (successive_check_alerts [ [facility_pue_2], [facility_pue_2] ])
     = [ [Info], [Info] ]"
  by (simp add: successive_check_alerts_def check_alerts_levels high_emitters_def
      low_renewable_def inefficient_def emissions_threshold_def series_mean_def
      facility_pue_2_def)

text \<open>
  C3, amended. Alert evaluation is level-triggered and keeps no state: in any sequence of
  successive evaluations, the alerts of the k-th evaluation are determined by the frame of
  that evaluation alone. It emits the \<open>critical\<close> alert exactly when some facility of
  that frame is above the emissions threshold, the \<open>warning\<close> alert exactly when some
  facility is below 30% renewable usage, and the \<open>info\<close> alert exactly when some
  facility has a PUE above 1.8, in this order, whatever the evaluations before emitted.
\<close>

theorem successive_check_alerts_level_triggered:
  assumes "k < length dfs"
  shows "map level (successive_check_alerts dfs ! k) =
     (if high_emitters (dfs ! k) \<noteq> [] then [Critical] else [])
     @ (if low_renewable (dfs ! k) \<noteq> [] then [Warning] else [])
     @ (if inefficient (dfs ! k) \<noteq> [] then [Info] else [])"
  using assms by (simp add: successive_check_alerts_def check_alerts_levels)

theorem successive_check_alerts_level_triggered_witness:
  "(1::nat) < length [ [facility_pue_2], [facility_pue_2] ]
   \<and> map level (successive_check_alerts [ [facility_pue_2], [facility_pue_2] ] ! 1) = [Info]"
proof -
  have k: "(1::nat) < length [ [facility_pue_2], [facility_pue_2] ]"
    by simp
  have "high_emitters [facility_pue_2] = []" "low_renewable [facility_pue_2] = []"
    "inefficient [facility_pue_2] \<noteq> []"
    by (simp_all add: high_emitters_def low_renewable_def inefficient_def
        emissions_threshold_def series_mean_def facility_pue_2_def)
  with successive_check_alerts_level_triggered [OF k] k show ?thesis
    by simp
qed

text \<open>
  C4, the claim as stated fails. In \<open>frame_at_thresholds\<close> the first facility emits
  exactly the emissions threshold (200, which is 1.5 times the mean 400/3), and every
  facility has exactly 30% renewable usage and a PUE of exactly 1.8: no rule is triggered.
\<close>

theorem check_alerts_equality_not_triggered:
  "emissions_threshold frame_at_thresholds = total_emissions (hd frame_at_thresholds)
   \<and> renewable_energy_usage (hd frame_at_thresholds) = 30
   \<and> pue (hd frame_at_thresholds) = 9 / 5
   \<and> check_alerts frame_at_thresholds = []"
proof -
  have "map level (check_alerts frame_at_thresholds) = []"
    unfolding check_alerts_levels
    by (simp add: high_emitters_def low_renewable_def inefficient_def
        frame_at_thresholds_threshold)
      (simp add: frame_at_thresholds_def facility_with_emissions_def
        facility_at_thresholds_def)
  then have "check_alerts frame_at_thresholds = []"
    by simp
  then show ?thesis
    by (simp add: frame_at_thresholds_threshold)
      (simp add: frame_at_thresholds_def facility_with_emissions_def
        facility_at_thresholds_def)
qed

text \<open>
  C4, amended. The threshold comparisons are strict and no rule has a state to reset: an
  evaluation emits the \<open>critical\<close> alert exactly when some facility's emissions are
  strictly greater than 1.5 times the mean emissions of the frame, the \<open>warning\<close> alert
  exactly when some facility's renewable usage is strictly less than 30, and the
  \<open>info\<close> alert exactly when some facility's PUE is strictly greater than 1.8. A value
  exactly equal to its threshold does not trigger the rule.
\<close>

theorem check_alerts_strict_comparison:
  "(Critical \<in> level ` set (check_alerts df)
      \<longleftrightarrow> (\<exists>r\<in>set df. series_mean (map total_emissions df) * (3 / 2) < total_emissions r))
   \<and> (Warning \<in> level ` set (check_alerts df)
      \<longleftrightarrow> (\<exists>r\<in>set df. renewable_energy_usage r < 30))
   \<and> (Info \<in> level ` set (check_alerts df)
      \<longleftrightarrow> (\<exists>r\<in>set df. 9 / 5 < pue r))"
  unfolding level_in_check_alerts
  by (simp add: high_emitters_def low_renewable_def inefficient_def emissions_threshold_def
      filter_empty_conv)

theorem check_alerts_strict_comparison_witness:
  "Info \<in> level ` set (check_alerts [facility_pue_2])
   \<and> Warning \<notin> level ` set (check_alerts [facility_pue_2])
   \<and> Critical \<notin> level ` set (check_alerts [facility_pue_2])
   \<and> Info \<notin> level ` set (check_alerts [facility_at_thresholds])
   \<and> Warning \<notin> level ` set (check_alerts [facility_at_thresholds])"
  using check_alerts_strict_comparison [of "[facility_pue_2]"]
    check_alerts_strict_comparison [of "[facility_at_thresholds]"]
  by (simp add: facility_pue_2_def facility_at_thresholds_def series_mean_def)

section \<open>Properties of the aggregates\<close>

lemma groupby_provider_scenario: "groupby cloud_service_provider scenario_records = [(''A'', scenario_records)]"
  by (simp add: groupby_def group_keys_def scenario_records_def)

lemma groupby_location_scenario: "groupby location scenario_records = [(''X'', scenario_records)]"
  by (simp add: groupby_def group_keys_def scenario_records_def)

lemma scenario_columns:
  "series_sum (map total_emissions scenario_records) = 300"
  "series_sum (map energy_consumption scenario_records) = 30"
  "series_mean (map total_emissions scenario_records) = 150"
  "series_mean (map energy_consumption scenario_records) = 15"
  "series_mean (map renewable_energy_usage scenario_records) = 55"
  "series_mean (map ai_workload scenario_records) = 35"
  "series_mean (map pue scenario_records) = 3 / 2"
  by (simp_all add: series_sum_def series_mean_def scenario_records_def)

lemma round2_values:
  "round2 300 = 300" "round2 30 = 30" "round2 150 = 150" "round2 15 = 15"
  "round2 55 = 55" "round2 35 = 35" "round2 (3 / 2) = 3 / 2"
  by (simp_all add: round2_def round_half_even_def)

lemma provider_metrics_records_scenario:
  "provider_metrics_records fixed_clock scenario_records =
     [ [(''Cloud Service Provider'', Str ''A''),
       (''Total Emissions (kg CO2e)'', Num 300),
       (''Energy Consumption (MWh)'', Num 30),
       (''Renewable Energy Usage (%)'', Num 55),
       (''AI Workload (%)'', Num 35),
       (''PUE (Power Usage Effectiveness)'', Num (3 / 2)),
       (''calculated_at'', Str ''2024-01-01T00:00:00'')] ]"
  by (simp add: provider_metrics_records_def provider_metrics_def groupby_provider_scenario scenario_columns
      round2_values with_timestamps_def fixed_clock_def)

lemma location_metrics_records_scenario:
  "location_metrics_records fixed_clock scenario_records =
     [ [(''Location'', Str ''X''),
       (''Total Emissions (kg CO2e)'', Num 150),
       (''Energy Consumption (MWh)'', Num 15),
       (''Renewable Energy Usage (%)'', Num 55),
       (''calculated_at'', Str ''2024-01-01T00:00:00'')] ]"
  by (simp add: location_metrics_records_def location_metrics_def groupby_location_scenario scenario_columns
      round2_values with_timestamps_def fixed_clock_def)

lemma set_group_keys: "set (group_keys key df) = key ` set df"
  by (simp add: group_keys_def)

lemma distinct_group_keys: "distinct (group_keys key df)"
  by (simp add: group_keys_def)

lemma map_of_groupby:
  "map_of (groupby key df) k =
     (if k \<in> key ` set df then Some (filter (\<lambda>r. key r = k) df) else None)"
proof -
  have "map_of (map (\<lambda>k. (k, f k)) ks) k = (if k \<in> set ks then Some (f k) else None)"
    for f :: "string \<Rightarrow> 'a list" and ks
    by (induction ks) auto
  then show ?thesis
    by (simp add: groupby_def set_group_keys)
qed

lemma in_groupby:
  "(k, g) \<in> set (groupby key df) \<longleftrightarrow> k \<in> key ` set df \<and> g = filter (\<lambda>r. key r = k) df"
  by (auto simp: groupby_def set_group_keys)

lemma map_of_provider_emissions:
  "map_of (provider_emissions df) p =
     (if p \<in> cloud_service_provider ` set df
      then Some (sum_list (map total_emissions
             (filter (\<lambda>r. cloud_service_provider r = p) df)))
      else None)"
proof -
  have aux: "map_of (map (\<lambda>(k, g). (k, f g)) kgs) p = map_option f (map_of kgs p)"
    for f :: "'b list \<Rightarrow> rat" and kgs :: "(string \<times> 'b list) list"
    by (induction kgs) auto
  show ?thesis
    by (simp add: provider_emissions_def aux map_of_groupby series_sum_def)
qed

lemma with_timestamps_nth:
  "with_timestamps key clock records =
     map (\<lambda>i. records ! i @ [(key, Str (clock i))]) [0..<length records]"
  unfolding with_timestamps_def by (rule nth_equalityI) simp_all

lemma in_with_timestamps:
  "entry \<in> set (with_timestamps key clock records) \<longleftrightarrow>
     (\<exists>i<length records. entry = records ! i @ [(key, Str (clock i))])"
  by (auto simp: with_timestamps_nth)

lemma in_provider_metrics:
  "entry \<in> set (provider_metrics data) \<longleftrightarrow>
     (\<exists>p\<in>cloud_service_provider ` set data.
        entry =
          (let g = filter (\<lambda>r. cloud_service_provider r = p) data
           in [(''Cloud Service Provider'', Str p),
               (''Total Emissions (kg CO2e)'', Num (round2 (series_sum (map total_emissions g)))),
               (''Energy Consumption (MWh)'',
                  Num (round2 (series_sum (map energy_consumption g)))),
               (''Renewable Energy Usage (%)'',
                  Num (round2 (series_mean (map renewable_energy_usage g)))),
               (''AI Workload (%)'', Num (round2 (series_mean (map ai_workload g)))),
               (''PUE (Power Usage Effectiveness)'', Num (round2 (series_mean (map pue g))))]))"
  unfolding provider_metrics_def groupby_def Let_def
  by (simp add: image_iff set_group_keys comp_def)

lemma in_location_metrics:
  "entry \<in> set (location_metrics data) \<longleftrightarrow>
     (\<exists>l\<in>location ` set data.
        entry =
          (let g = filter (\<lambda>r. location r = l) data
           in [(''Location'', Str l),
               (''Total Emissions (kg CO2e)'', Num (round2 (series_mean (map total_emissions g)))),
               (''Energy Consumption (MWh)'',
                  Num (round2 (series_mean (map energy_consumption g)))),
               (''Renewable Energy Usage (%)'',
                  Num (round2 (series_mean (map renewable_energy_usage g))))]))"
  unfolding location_metrics_def groupby_def Let_def
  by (simp add: image_iff set_group_keys comp_def)

lemma provider_metrics_records_entry:
  assumes "p \<in> cloud_service_provider ` set df"
  shows "\<exists>i<length (provider_metrics_records clock df).
       [(''Cloud Service Provider'', Str p),
        (''Total Emissions (kg CO2e)'', Num (round2 (sum_list (map total_emissions
            (filter (\<lambda>r. cloud_service_provider r = p) df))))),
        (''Energy Consumption (MWh)'', Num (round2 (sum_list (map energy_consumption
            (filter (\<lambda>r. cloud_service_provider r = p) df))))),
        (''Renewable Energy Usage (%)'', Num (round2 (series_mean (map renewable_energy_usage
            (filter (\<lambda>r. cloud_service_provider r = p) df))))),
        (''AI Workload (%)'', Num (round2 (series_mean (map ai_workload
            (filter (\<lambda>r. cloud_service_provider r = p) df))))),
        (''PUE (Power Usage Effectiveness)'', Num (round2 (series_mean (map pue
            (filter (\<lambda>r. cloud_service_provider r = p) df))))),
        (''calculated_at'', Str (clock i))]
       \<in> set (provider_metrics_records clock df)"
proof -
  let ?g = "filter (\<lambda>r. cloud_service_provider r = p) df"
  let ?r = "[(''Cloud Service Provider'', Str p),
       (''Total Emissions (kg CO2e)'', Num (round2 (series_sum (map total_emissions ?g)))),
       (''Energy Consumption (MWh)'', Num (round2 (series_sum (map energy_consumption ?g)))),
       (''Renewable Energy Usage (%)'',
          Num (round2 (series_mean (map renewable_energy_usage ?g)))),
       (''AI Workload (%)'', Num (round2 (series_mean (map ai_workload ?g)))),
       (''PUE (Power Usage Effectiveness)'', Num (round2 (series_mean (map pue ?g))))]"
  have "?r \<in> set (provider_metrics df)"
    unfolding in_provider_metrics Let_def using assms by blast
  then obtain i where i: "i < length (provider_metrics df)" "provider_metrics df ! i = ?r"
    by (auto simp: in_set_conv_nth)
  then have "?r @ [(''calculated_at'', Str (clock i))] \<in> set (provider_metrics_records clock df)"
    unfolding provider_metrics_records_def in_with_timestamps by auto
  moreover have "length (provider_metrics_records clock df) = length (provider_metrics df)"
    by (simp add: provider_metrics_records_def with_timestamps_nth)
  ultimately show ?thesis
    using i(1) by (auto simp: series_sum_def)
qed

lemma location_metrics_records_entry:
  assumes "l \<in> location ` set df"
  shows "\<exists>i<length (location_metrics_records clock df).
       [(''Location'', Str l),
        (''Total Emissions (kg CO2e)'', Num (round2 (series_mean (map total_emissions
            (filter (\<lambda>r. location r = l) df))))),
        (''Energy Consumption (MWh)'', Num (round2 (series_mean (map energy_consumption
            (filter (\<lambda>r. location r = l) df))))),
        (''Renewable Energy Usage (%)'', Num (round2 (series_mean (map renewable_energy_usage
            (filter (\<lambda>r. location r = l) df))))),
        (''calculated_at'', Str (clock i))]
       \<in> set (location_metrics_records clock df)"
proof -
  let ?g = "filter (\<lambda>r. location r = l) df"
  let ?r = "[(''Location'', Str l),
       (''Total Emissions (kg CO2e)'', Num (round2 (series_mean (map total_emissions ?g)))),
       (''Energy Consumption (MWh)'', Num (round2 (series_mean (map energy_consumption ?g)))),
       (''Renewable Energy Usage (%)'',
          Num (round2 (series_mean (map renewable_energy_usage ?g))))]"
  have "?r \<in> set (location_metrics df)"
    unfolding in_location_metrics Let_def using assms by blast
  then obtain i where i: "i < length (location_metrics df)" "location_metrics df ! i = ?r"
    by (auto simp: in_set_conv_nth)
  then have "?r @ [(''calculated_at'', Str (clock i))] \<in> set (location_metrics_records clock df)"
    unfolding location_metrics_records_def in_with_timestamps by auto
  moreover have "length (location_metrics_records clock df) = length (location_metrics df)"
    by (simp add: location_metrics_records_def with_timestamps_nth)
  ultimately show ?thesis
    using i(1) by auto
qed

lemma provider_metrics_records_shape:
  assumes "entry \<in> set (provider_metrics_records clock df)"
  shows "\<exists>p\<in>cloud_service_provider ` set df. \<exists>i<length (provider_metrics_records clock df).
      entry =
       [(''Cloud Service Provider'', Str p),
        (''Total Emissions (kg CO2e)'', Num (round2 (sum_list (map total_emissions
            (filter (\<lambda>r. cloud_service_provider r = p) df))))),
        (''Energy Consumption (MWh)'', Num (round2 (sum_list (map energy_consumption
            (filter (\<lambda>r. cloud_service_provider r = p) df))))),
        (''Renewable Energy Usage (%)'', Num (round2 (series_mean (map renewable_energy_usage
            (filter (\<lambda>r. cloud_service_provider r = p) df))))),
        (''AI Workload (%)'', Num (round2 (series_mean (map ai_workload
            (filter (\<lambda>r. cloud_service_provider r = p) df))))),
        (''PUE (Power Usage Effectiveness)'', Num (round2 (series_mean (map pue
            (filter (\<lambda>r. cloud_service_provider r = p) df))))),
        (''calculated_at'', Str (clock i))]"
proof -
  have len: "length (provider_metrics_records clock df) = length (provider_metrics df)"
    by (simp add: provider_metrics_records_def with_timestamps_nth)
  from assms obtain i where i: "i < length (provider_metrics df)"
      "entry = provider_metrics df ! i @ [(''calculated_at'', Str (clock i))]"
    unfolding provider_metrics_records_def in_with_timestamps by blast
  then have "provider_metrics df ! i \<in> set (provider_metrics df)"
    by simp
  then obtain p where p: "p \<in> cloud_service_provider ` set df"
    and r: "provider_metrics df ! i =
      [(''Cloud Service Provider'', Str p),
       (''Total Emissions (kg CO2e)'', Num (round2 (series_sum (map total_emissions
          (filter (\<lambda>r. cloud_service_provider r = p) df))))),
       (''Energy Consumption (MWh)'', Num (round2 (series_sum (map energy_consumption
          (filter (\<lambda>r. cloud_service_provider r = p) df))))),
       (''Renewable Energy Usage (%)'', Num (round2 (series_mean (map renewable_energy_usage
          (filter (\<lambda>r. cloud_service_provider r = p) df))))),
       (''AI Workload (%)'', Num (round2 (series_mean (map ai_workload
          (filter (\<lambda>r. cloud_service_provider r = p) df))))),
       (''PUE (Power Usage Effectiveness)'', Num (round2 (series_mean (map pue
          (filter (\<lambda>r. cloud_service_provider r = p) df)))))]"
    unfolding in_provider_metrics Let_def by blast
  show ?thesis
    by (rule bexI [OF _ p], rule exI [of _ i]) (simp add: i r len series_sum_def)
qed

lemma location_metrics_records_shape:
  assumes "entry \<in> set (location_metrics_records clock df)"
  shows "\<exists>l\<in>location ` set df. \<exists>i<length (location_metrics_records clock df).
      entry =
       [(''Location'', Str l),
        (''Total Emissions (kg CO2e)'', Num (round2 (series_mean (map total_emissions
            (filter (\<lambda>r. location r = l) df))))),
        (''Energy Consumption (MWh)'', Num (round2 (series_mean (map energy_consumption
            (filter (\<lambda>r. location r = l) df))))),
        (''Renewable Energy Usage (%)'', Num (round2 (series_mean (map renewable_energy_usage
            (filter (\<lambda>r. location r = l) df))))),
        (''calculated_at'', Str (clock i))]"
proof -
  have len: "length (location_metrics_records clock df) = length (location_metrics df)"
    by (simp add: location_metrics_records_def with_timestamps_nth)
  from assms obtain i where i: "i < length (location_metrics df)"
      "entry = location_metrics df ! i @ [(''calculated_at'', Str (clock i))]"
    unfolding location_metrics_records_def in_with_timestamps by blast
  then have "location_metrics df ! i \<in> set (location_metrics df)"
    by simp
  then obtain l where l: "l \<in> location ` set df"
    and r: "location_metrics df ! i =
      [(''Location'', Str l),
       (''Total Emissions (kg CO2e)'', Num (round2 (series_mean (map total_emissions
          (filter (\<lambda>r. location r = l) df))))),
       (''Energy Consumption (MWh)'', Num (round2 (series_mean (map energy_consumption
          (filter (\<lambda>r. location r = l) df))))),
       (''Renewable Energy Usage (%)'', Num (round2 (series_mean (map renewable_energy_usage
          (filter (\<lambda>r. location r = l) df)))))]"
    unfolding in_location_metrics Let_def by blast
  show ?thesis
    by (rule bexI [OF _ l], rule exI [of _ i]) (simp add: i r len)
qed

lemma scenario_groups:
  "cloud_service_provider ` set scenario_records = {''A''}"
  "location ` set scenario_records = {''X''}"
  "filter (\<lambda>r. cloud_service_provider r = ''A'') scenario_records = scenario_records"
  "filter (\<lambda>r. location r = ''X'') scenario_records = scenario_records"
  by (simp_all add: scenario_records_def)

lemma scenario_sums:
  "sum_list (map total_emissions scenario_records) = 300"
  "sum_list (map energy_consumption scenario_records) = 30"
  by (simp_all add: scenario_records_def)

lemma in_provider_emissions:
  "(q, amount) \<in> set (provider_emissions df) \<longleftrightarrow>
     q \<in> cloud_service_provider ` set df
     \<and> amount = sum_list (map total_emissions (filter (\<lambda>r. cloud_service_provider r = q) df))"
  by (auto simp: provider_emissions_def groupby_def set_group_keys series_sum_def)

lemma provider_emissions_keys:
  "map fst (provider_emissions df) = group_keys cloud_service_provider df"
  by (simp add: provider_emissions_def groupby_def comp_def)

text \<open>
  C1, the claim as stated fails. For the two records of the scenario, the per-provider
  aggregate of the monitor is the series \<open>[(''A'', 300)]\<close>, and the record uploaded to
  \<open>provider_metrics\<close> for provider \<open>A\<close> has the total 300 but neither a count (no value
  2) nor a mean of the emissions (no value 150), and no column for either.
\<close>

theorem provider_snapshot_has_no_count_or_mean:
  "provider_emissions scenario_records = [(''A'', 300)]
   \<and> map fst (hd (provider_metrics_records fixed_clock scenario_records)) =
       [''Cloud Service Provider'', ''Total Emissions (kg CO2e)'',
        ''Energy Consumption (MWh)'', ''Renewable Energy Usage (%)'', ''AI Workload (%)'',
        ''PUE (Power Usage Effectiveness)'', ''calculated_at'']
   \<and> Num 300 \<in> snd ` set (hd (provider_metrics_records fixed_clock scenario_records))
   \<and> Num 2 \<notin> snd ` set (hd (provider_metrics_records fixed_clock scenario_records))
   \<and> Num 150 \<notin> snd ` set (hd (provider_metrics_records fixed_clock scenario_records))"
  by (simp add: provider_emissions_def groupby_provider_scenario scenario_columns provider_metrics_records_scenario)

text \<open>
  C1, amended. For every frame of emission records and every provider that occurs in it,
  the per-provider aggregate of the emissions is their sum and nothing else. The series
  that the monitor plots has exactly one entry for each provider, and the entry of a
  provider is the sum of the emissions over the records of the whole frame filtered for
  that provider, in frame order. The record uploaded to \<open>provider_metrics\<close> for the
  provider has exactly the columns provider, total emissions, energy consumption,
  renewable usage, AI workload, PUE and \<open>calculated_at\<close>, and its total emissions are
  that sum, rounded to two decimals. For the scenario the total of provider \<open>A\<close> is 300.
  No count and no mean of the emissions is part of the per-provider aggregate: the series
  holds one number for a provider, the sum, and the record has no column for either.
\<close>

theorem provider_emissions_recomputed:
  assumes "p \<in> cloud_service_provider ` set df"
  shows "map_of (provider_emissions df) p =
           Some (sum_list (map total_emissions
              (filter (\<lambda>r. cloud_service_provider r = p) df)))
     \<and> distinct (map fst (provider_emissions df))
     \<and> (\<forall>(q, amount)\<in>set (provider_emissions df).
           q \<in> cloud_service_provider ` set df
           \<and> amount = sum_list (map total_emissions
                 (filter (\<lambda>r. cloud_service_provider r = q) df)))
     \<and> (\<exists>entry\<in>set (provider_metrics_records clock df).
           map fst entry =
             [''Cloud Service Provider'', ''Total Emissions (kg CO2e)'',
              ''Energy Consumption (MWh)'', ''Renewable Energy Usage (%)'',
              ''AI Workload (%)'', ''PUE (Power Usage Effectiveness)'', ''calculated_at'']
           \<and> map_of entry ''Cloud Service Provider'' = Some (Str p)
           \<and> map_of entry ''Total Emissions (kg CO2e)'' =
               Some (Num (round2 (sum_list (map total_emissions
                  (filter (\<lambda>r. cloud_service_provider r = p) df))))))"
proof (intro conjI)
  show "map_of (provider_emissions df) p =
      Some (sum_list (map total_emissions (filter (\<lambda>r. cloud_service_provider r = p) df)))"
    using assms by (simp add: map_of_provider_emissions)
next
  show "distinct (map fst (provider_emissions df))"
    by (simp add: provider_emissions_keys distinct_group_keys)
next
  show "\<forall>(q, amount)\<in>set (provider_emissions df).
      q \<in> cloud_service_provider ` set df
      \<and> amount = sum_list (map total_emissions
            (filter (\<lambda>r. cloud_service_provider r = q) df))"
    using in_provider_emissions [of _ _ df] by blast
next
  from provider_metrics_records_entry [OF assms, of clock]
  obtain i where "[(''Cloud Service Provider'', Str p),
        (''Total Emissions (kg CO2e)'', Num (round2 (sum_list (map total_emissions
            (filter (\<lambda>r. cloud_service_provider r = p) df))))),
        (''Energy Consumption (MWh)'', Num (round2 (sum_list (map energy_consumption
            (filter (\<lambda>r. cloud_service_provider r = p) df))))),
        (''Renewable Energy Usage (%)'', Num (round2 (series_mean (map renewable_energy_usage
            (filter (\<lambda>r. cloud_service_provider r = p) df))))),
        (''AI Workload (%)'', Num (round2 (series_mean (map ai_workload
            (filter (\<lambda>r. cloud_service_provider r = p) df))))),
        (''PUE (Power Usage Effectiveness)'', Num (round2 (series_mean (map pue
            (filter (\<lambda>r. cloud_service_provider r = p) df))))),
        (''calculated_at'', Str (clock i))]
       \<in> set (provider_metrics_records clock df)"
    by blast
  then show "\<exists>entry\<in>set (provider_metrics_records clock df).
           map fst entry =
             [''Cloud Service Provider'', ''Total Emissions (kg CO2e)'',
              ''Energy Consumption (MWh)'', ''Renewable Energy Usage (%)'',
              ''AI Workload (%)'', ''PUE (Power Usage Effectiveness)'', ''calculated_at'']
           \<and> map_of entry ''Cloud Service Provider'' = Some (Str p)
           \<and> map_of entry ''Total Emissions (kg CO2e)'' =
               Some (Num (round2 (sum_list (map total_emissions
                  (filter (\<lambda>r. cloud_service_provider r = p) df)))))"
    by (rule bexI [rotated]) simp
qed

theorem provider_emissions_recomputed_witness:
  "''A'' \<in> cloud_service_provider ` set scenario_records
   \<and> map_of (provider_emissions scenario_records) ''A'' = Some 300
   \<and> (''A'', 300) \<in> set (provider_emissions scenario_records)"
proof -
  have p: "''A'' \<in> cloud_service_provider ` set scenario_records"
    by (simp add: scenario_records_def)
  have s: "sum_list (map total_emissions
      (filter (\<lambda>r. cloud_service_provider r = ''A'') scenario_records)) = 300"
    by (simp add: scenario_records_def)
  note inst = provider_emissions_recomputed [OF p, of fixed_clock]
  from inst have a: "map_of (provider_emissions scenario_records) ''A'' = Some 300"
    unfolding s by (rule conjunct1)
  then have b: "(''A'', 300) \<in> set (provider_emissions scenario_records)"
    by (rule map_of_SomeD)
  from p a b show ?thesis
    by (intro conjI)
qed

text \<open>
  C5, the claim as stated fails. For the two records of the scenario (emissions 100 and
  200, renewable usage 50 and 60), the record written to \<open>location_metrics\<close> stores 150,
  the mean of the emissions, and the record written to \<open>provider_metrics\<close> stores 55,
  the mean of the renewable usage; no count is written from which a mean could be derived
  on read.
\<close>

theorem location_metrics_store_mean:
  "map_of (hd (location_metrics_records fixed_clock scenario_records))
       ''Total Emissions (kg CO2e)'' = Some (Num 150)
   \<and> series_mean (map total_emissions scenario_records) = 150
   \<and> map_of (hd (provider_metrics_records fixed_clock scenario_records))
       ''Renewable Energy Usage (%)'' = Some (Num 55)
   \<and> series_mean (map renewable_energy_usage scenario_records) = 55
   \<and> map fst (hd (location_metrics_records fixed_clock scenario_records)) =
       [''Location'', ''Total Emissions (kg CO2e)'', ''Energy Consumption (MWh)'',
        ''Renewable Energy Usage (%)'', ''calculated_at'']"
  by (simp add: scenario_columns provider_metrics_records_scenario
      location_metrics_records_scenario)

text \<open>
  C5, amended. The aggregates written by the system store means directly. Every record
  written to \<open>provider_metrics\<close> is, for some provider of the data, exactly the
  dictionary of that provider, of the sum of the emissions and the sum of the energy
  consumption of the provider's records, of the means of their renewable usage, AI
  workload and PUE, every value rounded to two decimals, and of \<open>calculated_at\<close>; and
  every provider of the data has such a record. Every record written to
  \<open>location_metrics\<close> is, for some location of the data, exactly the dictionary of that
  location, of the means of emissions, energy consumption and renewable usage over the
  location's records, rounded to two decimals, and of \<open>calculated_at\<close>; and every
  location has such a record. Neither holds a count, a minimum or a maximum.
\<close>

theorem stored_metrics_hold_means:
  "(\<forall>entry\<in>set (provider_metrics_records clock data).
      \<exists>p\<in>cloud_service_provider ` set data.
      \<exists>i<length (provider_metrics_records clock data).
        entry =
          [(''Cloud Service Provider'', Str p),
           (''Total Emissions (kg CO2e)'', Num (round2 (sum_list (map total_emissions
               (filter (\<lambda>r. cloud_service_provider r = p) data))))),
           (''Energy Consumption (MWh)'', Num (round2 (sum_list (map energy_consumption
               (filter (\<lambda>r. cloud_service_provider r = p) data))))),
           (''Renewable Energy Usage (%)'', Num (round2 (series_mean (map renewable_energy_usage
               (filter (\<lambda>r. cloud_service_provider r = p) data))))),
           (''AI Workload (%)'', Num (round2 (series_mean (map ai_workload
               (filter (\<lambda>r. cloud_service_provider r = p) data))))),
           (''PUE (Power Usage Effectiveness)'', Num (round2 (series_mean (map pue
               (filter (\<lambda>r. cloud_service_provider r = p) data))))),
           (''calculated_at'', Str (clock i))])
   \<and> (\<forall>p\<in>cloud_service_provider ` set data.
        \<exists>entry\<in>set (provider_metrics_records clock data).
          map_of entry ''Cloud Service Provider'' = Some (Str p))
   \<and> (\<forall>entry\<in>set (location_metrics_records clock data).
      \<exists>l\<in>location ` set data.
      \<exists>i<length (location_metrics_records clock data).
        entry =
          [(''Location'', Str l),
           (''Total Emissions (kg CO2e)'', Num (round2 (series_mean (map total_emissions
               (filter (\<lambda>r. location r = l) data))))),
           (''Energy Consumption (MWh)'', Num (round2 (series_mean (map energy_consumption
               (filter (\<lambda>r. location r = l) data))))),
           (''Renewable Energy Usage (%)'', Num (round2 (series_mean (map renewable_energy_usage
               (filter (\<lambda>r. location r = l) data))))),
           (''calculated_at'', Str (clock i))])
   \<and> (\<forall>l\<in>location ` set data.
        \<exists>entry\<in>set (location_metrics_records clock data).
          map_of entry ''Location'' = Some (Str l))"
proof (intro conjI ballI)
  fix entry
  assume "entry \<in> set (provider_metrics_records clock data)"
  then show "\<exists>p\<in>cloud_service_provider ` set data.
      \<exists>i<length (provider_metrics_records clock data).
        entry =
          [(''Cloud Service Provider'', Str p),
           (''Total Emissions (kg CO2e)'', Num (round2 (sum_list (map total_emissions
               (filter (\<lambda>r. cloud_service_provider r = p) data))))),
           (''Energy Consumption (MWh)'', Num (round2 (sum_list (map energy_consumption
               (filter (\<lambda>r. cloud_service_provider r = p) data))))),
           (''Renewable Energy Usage (%)'', Num (round2 (series_mean (map renewable_energy_usage
               (filter (\<lambda>r. cloud_service_provider r = p) data))))),
           (''AI Workload (%)'', Num (round2 (series_mean (map ai_workload
               (filter (\<lambda>r. cloud_service_provider r = p) data))))),
           (''PUE (Power Usage Effectiveness)'', Num (round2 (series_mean (map pue
               (filter (\<lambda>r. cloud_service_provider r = p) data))))),
           (''calculated_at'', Str (clock i))]"
    by (rule provider_metrics_records_shape)
next
  fix p
  assume "p \<in> cloud_service_provider ` set data"
  from provider_metrics_records_entry [OF this, of clock]
  obtain entry where "entry \<in> set (provider_metrics_records clock data)"
    and "map_of entry ''Cloud Service Provider'' = Some (Str p)"
    by fastforce
  then show "\<exists>entry\<in>set (provider_metrics_records clock data).
      map_of entry ''Cloud Service Provider'' = Some (Str p)"
    by blast
next
  fix entry
  assume "entry \<in> set (location_metrics_records clock data)"
  then show "\<exists>l\<in>location ` set data.
      \<exists>i<length (location_metrics_records clock data).
        entry =
          [(''Location'', Str l),
           (''Total Emissions (kg CO2e)'', Num (round2 (series_mean (map total_emissions
               (filter (\<lambda>r. location r = l) data))))),
           (''Energy Consumption (MWh)'', Num (round2 (series_mean (map energy_consumption
               (filter (\<lambda>r. location r = l) data))))),
           (''Renewable Energy Usage (%)'', Num (round2 (series_mean (map renewable_energy_usage
               (filter (\<lambda>r. location r = l) data))))),
           (''calculated_at'', Str (clock i))]"
    by (rule location_metrics_records_shape)
next
  fix l
  assume "l \<in> location ` set data"
  from location_metrics_records_entry [OF this, of clock]
  obtain entry where "entry \<in> set (location_metrics_records clock data)"
    and "map_of entry ''Location'' = Some (Str l)"
    by fastforce
  then show "\<exists>entry\<in>set (location_metrics_records clock data).
      map_of entry ''Location'' = Some (Str l)"
    by blast
qed

theorem stored_metrics_hold_means_witness:
  "hd (provider_metrics_records fixed_clock scenario_records) =
     [(''Cloud Service Provider'', Str ''A''),
      (''Total Emissions (kg CO2e)'', Num 300),
      (''Energy Consumption (MWh)'', Num 30),
      (''Renewable Energy Usage (%)'', Num 55),
      (''AI Workload (%)'', Num 35),
      (''PUE (Power Usage Effectiveness)'', Num (3 / 2)),
      (''calculated_at'', Str ''2024-01-01T00:00:00'')]
   \<and> hd (location_metrics_records fixed_clock scenario_records) =
     [(''Location'', Str ''X''),
      (''Total Emissions (kg CO2e)'', Num 150),
      (''Energy Consumption (MWh)'', Num 15),
      (''Renewable Energy Usage (%)'', Num 55),
      (''calculated_at'', Str ''2024-01-01T00:00:00'')]"
proof -
  note inst = stored_metrics_hold_means [of fixed_clock scenario_records]
  have pm: "hd (provider_metrics_records fixed_clock scenario_records)
      \<in> set (provider_metrics_records fixed_clock scenario_records)"
    by (simp add: provider_metrics_records_scenario)
  have lm: "hd (location_metrics_records fixed_clock scenario_records)
      \<in> set (location_metrics_records fixed_clock scenario_records)"
    by (simp add: location_metrics_records_scenario)
  from inst pm have "\<exists>p\<in>cloud_service_provider ` set scenario_records.
      \<exists>i<length (provider_metrics_records fixed_clock scenario_records).
        hd (provider_metrics_records fixed_clock scenario_records) =
          [(''Cloud Service Provider'', Str p),
           (''Total Emissions (kg CO2e)'', Num (round2 (sum_list (map total_emissions
               (filter (\<lambda>r. cloud_service_provider r = p) scenario_records))))),
           (''Energy Consumption (MWh)'', Num (round2 (sum_list (map energy_consumption
               (filter (\<lambda>r. cloud_service_provider r = p) scenario_records))))),
           (''Renewable Energy Usage (%)'', Num (round2 (series_mean (map renewable_energy_usage
               (filter (\<lambda>r. cloud_service_provider r = p) scenario_records))))),
           (''AI Workload (%)'', Num (round2 (series_mean (map ai_workload
               (filter (\<lambda>r. cloud_service_provider r = p) scenario_records))))),
           (''PUE (Power Usage Effectiveness)'', Num (round2 (series_mean (map pue
               (filter (\<lambda>r. cloud_service_provider r = p) scenario_records))))),
           (''calculated_at'', Str (fixed_clock i))]"
    by blast
  then have a: "hd (provider_metrics_records fixed_clock scenario_records) =
     [(''Cloud Service Provider'', Str ''A''),
      (''Total Emissions (kg CO2e)'', Num 300),
      (''Energy Consumption (MWh)'', Num 30),
      (''Renewable Energy Usage (%)'', Num 55),
      (''AI Workload (%)'', Num 35),
      (''PUE (Power Usage Effectiveness)'', Num (3 / 2)),
      (''calculated_at'', Str ''2024-01-01T00:00:00'')]"
    unfolding scenario_groups
    by (auto simp: scenario_groups scenario_sums scenario_columns round2_values fixed_clock_def)
  from inst lm have "\<exists>l\<in>location ` set scenario_records.
      \<exists>i<length (location_metrics_records fixed_clock scenario_records).
        hd (location_metrics_records fixed_clock scenario_records) =
          [(''Location'', Str l),
           (''Total Emissions (kg CO2e)'', Num (round2 (series_mean (map total_emissions
               (filter (\<lambda>r. location r = l) scenario_records))))),
           (''Energy Consumption (MWh)'', Num (round2 (series_mean (map energy_consumption
               (filter (\<lambda>r. location r = l) scenario_records))))),
           (''Renewable Energy Usage (%)'', Num (round2 (series_mean (map renewable_energy_usage
               (filter (\<lambda>r. location r = l) scenario_records))))),
           (''calculated_at'', Str (fixed_clock i))]"
    by blast
  then have b: "hd (location_metrics_records fixed_clock scenario_records) =
     [(''Location'', Str ''X''),
      (''Total Emissions (kg CO2e)'', Num 150),
      (''Energy Consumption (MWh)'', Num 15),
      (''Renewable Energy Usage (%)'', Num 55),
      (''calculated_at'', Str ''2024-01-01T00:00:00'')]"
    unfolding scenario_groups
    by (auto simp: scenario_groups scenario_columns round2_values fixed_clock_def)
  from a b show ?thesis
    by (rule conjI)
qed

section \<open>Properties of the real-time monitor\<close>

lemma update_visualizations_from_store:
  assumes "current_emissions s' = current_emissions s" "monitor.more s' = monitor.more s"
  shows "update_visualizations sel td nd' s' = update_visualizations sel td nd s"
proof -
  have "s'\<lparr>ax00 := cleared, ax01 := cleared, ax10 := cleared, ax11 := cleared\<rparr>
      = s\<lparr>ax00 := cleared, ax01 := cleared, ax10 := cleared, ax11 := cleared\<rparr>"
    using assms by (cases s, cases s') simp
  then show ?thesis
    by (simp add: update_visualizations_def)
qed

lemma update_visualizations_keeps:
  "current_emissions (fst (update_visualizations sel td nd s)) = current_emissions s"
  "monitor.more (fst (update_visualizations sel td nd s)) = monitor.more s"
  by (simp_all add: update_visualizations_def Let_def split: sum.splits)

lemma update_visualizations_idem:
  "update_visualizations sel td nd (fst (update_visualizations sel td nd s))
     = update_visualizations sel td nd s"
  by (rule update_visualizations_from_store) (rule update_visualizations_keeps)+

lemma handle_broadcast_idem:
  "handle_broadcast sel td payload (snd (handle_broadcast sel td payload s))
     = handle_broadcast sel td payload s"
proof (cases "map_of payload ''new''")
  case None
  then show ?thesis by (simp add: handle_broadcast_def)
next
  case (Some new_data)
  show ?thesis
  proof (cases "map_of new_data ''cloud_service_provider'' = None
      \<or> map_of new_data ''total_emissions'' = None")
    case True
    with Some show ?thesis
      by (auto simp: handle_broadcast_def split: option.splits)
  next
    case False
    then obtain p e where pe: "map_of new_data ''cloud_service_provider'' = Some p"
        "map_of new_data ''total_emissions'' = Some e"
      by auto
    obtain s1 r where u: "update_visualizations sel td new_data s = (s1, r)"
      by (cases "update_visualizations sel td new_data s")
    then have "update_visualizations sel td new_data s1 = (s1, r)"
      using update_visualizations_idem [of sel td new_data s] by simp
    with u Some pe show ?thesis
      by (simp add: handle_broadcast_def split: option.splits)
  qed
qed

lemma start_realtime_monitoring_snoc:
  "snd (start_realtime_monitoring None td (ds @ [(sel, payload)]) s) =
     snd (handle_broadcast sel td payload (snd (start_realtime_monitoring None td ds s)))"
  by (simp add: start_realtime_monitoring_def split: prod.splits)

text \<open>
  C2. A redelivered insert notification is a no-op. Handling the same payload a second
  time, with the table holding the same rows, prints the same lines and leaves the monitor
  (its figure and its frame) exactly as the first handling left it; and in any run of
  deliveries, the monitor after a delivery that arrives twice in a row is the monitor after
  it arrived once. The callback does not fold the new row into a running aggregate: it
  recomputes every aggregate from the rows the table holds.
\<close>

theorem redelivered_notification_is_noop:
  "handle_broadcast select to_datetime payload
       (snd (handle_broadcast select to_datetime payload self))
     = handle_broadcast select to_datetime payload self
   \<and> snd (start_realtime_monitoring subscribe to_datetime
          (deliveries @ [(select, payload), (select, payload)]) self)
     = snd (start_realtime_monitoring subscribe to_datetime
          (deliveries @ [(select, payload)]) self)"
proof
  show "handle_broadcast select to_datetime payload
       (snd (handle_broadcast select to_datetime payload self))
     = handle_broadcast select to_datetime payload self"
    by (rule handle_broadcast_idem)
next
  show "snd (start_realtime_monitoring subscribe to_datetime
          (deliveries @ [(select, payload), (select, payload)]) self)
     = snd (start_realtime_monitoring subscribe to_datetime
          (deliveries @ [(select, payload)]) self)"
  proof (cases subscribe)
    case (Some e)
    then show ?thesis by (simp add: start_realtime_monitoring_def)
  next
    case None
    have "deliveries @ [(select, payload), (select, payload)]
        = (deliveries @ [(select, payload)]) @ [(select, payload)]"
      by simp
    then show ?thesis
      unfolding None
      by (simp only: start_realtime_monitoring_snoc handle_broadcast_idem)
  qed
qed

lemma provider_emissions_scenario_table:
  "provider_emissions scenario_table = [(''A'', 300)]"
  by (simp add: provider_emissions_def groupby_def group_keys_def scenario_table_def
      series_sum_def)

lemma handle_scenario_once:
  "chart (ax00 (snd (handle_broadcast (Inr scenario_table) to_datetime_2024 scenario_payload
       new_monitor))) = Some (Bar_chart [(''A'', 300)])"
proof -
  have t: "None \<notin> set (map (\<lambda>r. to_datetime_2024 (uploaded_at r)) scenario_table)"
    by (simp add: scenario_table_def to_datetime_2024_def)
  have ne: "scenario_table \<noteq> []"
    by (simp add: scenario_table_def)
  have "chart (ax00 (fst (update_visualizations (Inr scenario_table) to_datetime_2024 nd
       new_monitor))) = Some (Bar_chart [(''A'', 300)])" for nd
    using t ne
    by (simp add: update_visualizations_def Let_def provider_emissions_scenario_table)
  then show ?thesis
    by (simp add: handle_broadcast_def scenario_payload_def split: prod.splits option.splits)
      (metis fst_conv)
qed

theorem redelivered_notification_is_noop_witness:
  "chart (ax00 (snd (handle_broadcast (Inr scenario_table) to_datetime_2024 scenario_payload
       (snd (handle_broadcast (Inr scenario_table) to_datetime_2024 scenario_payload
          new_monitor))))) = Some (Bar_chart [(''A'', 300)])"
  using redelivered_notification_is_noop [where select = "Inr scenario_table"
      and to_datetime = to_datetime_2024 and payload = scenario_payload
      and self = new_monitor and subscribe = None and deliveries = "[]"]
    handle_scenario_once
  by simp

section \<open>Properties of the API collector\<close>

lemma init_collector:
  assumes "CarbonDataCollector_init getenv mkdir = Inr c"
  shows "gcp_api_key c = getenv ''GCP_API_KEY''"
    and "aws_api_key c = getenv ''AWS_API_KEY''"
    and "azure_api_key c = getenv ''AZURE_API_KEY''"
    and "map_of (base_urls c) ''gcp'' = Some ''https://cloudasset.googleapis.com/v1''"
    and "map_of (base_urls c) ''aws'' = Some ''https://sustainability.aws.amazon.com/v1''"
    and "map_of (base_urls c) ''azure'' = Some ''https://management.azure.com/sustainability/v1''"
  using assms
  by (auto simp: CarbonDataCollector_init_def Let_def split: option.splits)

lemma init_keyless: "CarbonDataCollector_init no_environment mkdir_ok = Inr keyless_collector"
  by (simp add: CarbonDataCollector_init_def no_environment_def mkdir_ok_def
      keyless_collector_def)

lemma collect_from_outcome:
  assumes "map_of (base_urls c) key = Some base"
  shows "collect_from c http key path hdrs build =
     (case http (base @ path) hdrs of
        Returns j \<Rightarrow> ([], build (Some j))
      | Raises_request_exception m \<Rightarrow> ([API_request_failed m], build None)
      | Raises_other e \<Rightarrow> ([], Inl e))"
  using assms
  by (simp add: collect_from_def make_api_request_def split: http_outcome.splits)

lemma one_row_frame_object:
  "one_row_frame now name ek ck tk (Some (JObject kvs)) =
     (if kvs = [] then Inr []
      else Inr [ [(''timestamp'', JString now), (''provider'', JString name),
                 (''energy_consumption'',
                    case map_of kvs ek of Some v \<Rightarrow> v | None \<Rightarrow> JNumber 0),
                 (''carbon_emissions'',
                    case map_of kvs ck of Some v \<Rightarrow> v | None \<Rightarrow> JNumber 0),
                 (''data_transfer'',
                    case map_of kvs tk of Some v \<Rightarrow> v | None \<Rightarrow> JNumber 0)] ])"
  by (simp add: one_row_frame_def truthy_def json_get_def)

lemma one_row_frame_None: "one_row_frame now name ek ck tk None = Inr []"
  by (simp add: one_row_frame_def)

lemma collect_from_one_row:
  assumes base: "map_of (base_urls c) key = Some base"
    and shape: "(\<exists>m. http (base @ path) hdrs = Raises_request_exception m)
       \<or> (\<exists>kvs. http (base @ path) hdrs = Returns (JObject kvs))"
  shows "\<exists>out rows.
      collect_from c http key path hdrs (one_row_frame now name ek ck tk) = (out, Inr rows)
      \<and> map (\<lambda>r. map_of r ''provider'') rows =
          (if delivers (http (base @ path) hdrs) then [Some (JString name)] else [])
      \<and> length out = (if request_failed (http (base @ path) hdrs) then 1 else 0)"
  using shape
proof (elim disjE exE)
  fix m
  assume "http (base @ path) hdrs = Raises_request_exception m"
  then show ?thesis
    by (simp add: collect_from_outcome [OF base] one_row_frame_None delivers_def
        request_failed_def)
next
  fix kvs
  assume "http (base @ path) hdrs = Returns (JObject kvs)"
  then show ?thesis
    by (simp add: collect_from_outcome [OF base] one_row_frame_object delivers_def
        request_failed_def truthy_def)
qed

lemma collect_cloud_data_combined:
  assumes "collect_gcp_data c http (clock ''GCP'') = (out1, Inr g)"
    and "collect_aws_data c http (clock ''AWS'') = (out2, Inr a)"
    and "collect_azure_data c http (clock ''Azure'') = (out3, Inr z)"
    and "save (g @ a @ z) ''all_providers'' = None"
  shows "collect_cloud_data c http clock save = (out1 @ out2 @ out3, Inr (g @ a @ z))"
  using assms by (simp add: collect_cloud_data_def Let_def)

text \<open>
  C6, amended. Collection is isolated per source, but a failing source yields no error
  value. Suppose that every one of the three requests either fails with a
  \<open>RequestException\<close> (time-out, connection error, HTTP error status such as an
  authentication failure) or returns a JSON object, and that saving the raw data
  (\<open>save_raw_data\<close>) does not raise. Then \<open>collect_cloud_data\<close> does not abort: it
  returns a frame with exactly one row for each source that answered with a non-empty
  object, in the order GCP, AWS, Azure, and nothing for a source that failed, whose failure
  is only printed (one line per failing source). Under these conditions, collecting from
  three sources of which one fails yields the two rows of the others and no error object.
\<close>

theorem collect_cloud_data_isolates_sources:
  assumes init: "CarbonDataCollector_init getenv mkdir = Inr c"
    and og: "og = http ''https://cloudasset.googleapis.com/v1/sustainability/metrics''
               (gcp_headers c)"
    and oa: "oa = http ''https://sustainability.aws.amazon.com/v1/carbon-metrics''
               (aws_headers c)"
    and oz: "oz = http ''https://management.azure.com/sustainability/v1/emissions''
               (azure_headers c)"
    and shape: "\<forall>outcome\<in>{og, oa, oz}.
        (\<exists>m. outcome = Raises_request_exception m) \<or> (\<exists>kvs. outcome = Returns (JObject kvs))"
    and save: "\<forall>df. save df ''all_providers'' = None"
  shows "\<exists>rows. snd (collect_cloud_data c http clock save) = Inr rows
     \<and> map (\<lambda>r. map_of r ''provider'') rows =
         map (\<lambda>(name, outcome). Some (JString name))
           (filter (\<lambda>(name, outcome). delivers outcome)
              [(''GCP'', og), (''AWS'', oa), (''Azure'', oz)])
     \<and> length (fst (collect_cloud_data c http clock save)) =
         length (filter request_failed [og, oa, oz])"
proof -
  note urls = init_collector(4-6) [OF init]
  from shape og have sg: "(\<exists>m. http (''https://cloudasset.googleapis.com/v1'' @ ''/sustainability/metrics'')
         (gcp_headers c) = Raises_request_exception m)
      \<or> (\<exists>kvs. http (''https://cloudasset.googleapis.com/v1'' @ ''/sustainability/metrics'')
         (gcp_headers c) = Returns (JObject kvs))"
    by simp
  from shape oa have sa: "(\<exists>m. http (''https://sustainability.aws.amazon.com/v1'' @ ''/carbon-metrics'')
         (aws_headers c) = Raises_request_exception m)
      \<or> (\<exists>kvs. http (''https://sustainability.aws.amazon.com/v1'' @ ''/carbon-metrics'')
         (aws_headers c) = Returns (JObject kvs))"
    by simp
  from shape oz have sz: "(\<exists>m. http (''https://management.azure.com/sustainability/v1'' @ ''/emissions'')
         (azure_headers c) = Raises_request_exception m)
      \<or> (\<exists>kvs. http (''https://management.azure.com/sustainability/v1'' @ ''/emissions'')
         (azure_headers c) = Returns (JObject kvs))"
    by simp
  obtain out1 g where g: "collect_gcp_data c http (clock ''GCP'') = (out1, Inr g)"
      "map (\<lambda>r. map_of r ''provider'') g = (if delivers og then [Some (JString ''GCP'')] else [])"
      "length out1 = (if request_failed og then 1 else 0)"
    using collect_from_one_row [where http = http and path = "''/sustainability/metrics''"
        and hdrs = "gcp_headers c" and now = "clock ''GCP''" and name = "''GCP''"
        and ek = "''energy_kwh''" and ck = "''carbon_kg''" and tk = "''network_gb''", OF urls(1) sg]
    unfolding collect_gcp_data_def og by auto
  obtain out2 a where a: "collect_aws_data c http (clock ''AWS'') = (out2, Inr a)"
      "map (\<lambda>r. map_of r ''provider'') a = (if delivers oa then [Some (JString ''AWS'')] else [])"
      "length out2 = (if request_failed oa then 1 else 0)"
    using collect_from_one_row [where http = http and path = "''/carbon-metrics''"
        and hdrs = "aws_headers c" and now = "clock ''AWS''" and name = "''AWS''"
        and ek = "''energy_consumption''" and ck = "''co2_emissions''" and tk = "''data_transfer''", OF urls(2) sa]
    unfolding collect_aws_data_def oa by auto
  obtain out3 z where z: "collect_azure_data c http (clock ''Azure'') = (out3, Inr z)"
      "map (\<lambda>r. map_of r ''provider'') z = (if delivers oz then [Some (JString ''Azure'')] else [])"
      "length out3 = (if request_failed oz then 1 else 0)"
    using collect_from_one_row [where http = http and path = "''/emissions''"
        and hdrs = "azure_headers c" and now = "clock ''Azure''" and name = "''Azure''"
        and ek = "''energy_usage''" and ck = "''carbon_footprint''" and tk = "''network_usage''", OF urls(3) sz]
    unfolding collect_azure_data_def oz by auto
  from save have "save (g @ a @ z) ''all_providers'' = None"
    by simp
  from collect_cloud_data_combined [where clock = clock and save = save, OF g(1) a(1) z(1) this]
  have r: "collect_cloud_data c http clock save = (out1 @ out2 @ out3, Inr (g @ a @ z))" .
  show ?thesis
    unfolding r using g(2,3) a(2,3) z(2,3) by simp
qed

lemma http_gcp_times_out_outcomes:
  "http_gcp_times_out ''https://cloudasset.googleapis.com/v1/sustainability/metrics'' hg
     = Raises_request_exception ''Read timed out''"
  "http_gcp_times_out ''https://sustainability.aws.amazon.com/v1/carbon-metrics'' ha
     = Returns (JObject [(''energy_consumption'', JNumber 12), (''co2_emissions'', JNumber 7)])"
  "http_gcp_times_out ''https://management.azure.com/sustainability/v1/emissions'' hz
     = Returns (JObject [(''energy_usage'', JNumber 9), (''carbon_footprint'', JNumber 4)])"
  by (simp_all add: http_gcp_times_out_def)

lemma keyless_base_urls:
  "map_of (base_urls keyless_collector) ''gcp'' = Some ''https://cloudasset.googleapis.com/v1''"
  "map_of (base_urls keyless_collector) ''aws'' = Some ''https://sustainability.aws.amazon.com/v1''"
  "map_of (base_urls keyless_collector) ''azure''
     = Some ''https://management.azure.com/sustainability/v1''"
  by (simp_all add: keyless_collector_def)

text \<open>
  C6, the claim as stated fails. With the request to GCP timing out and the two others
  answering, \<open>collect_cloud_data\<close> returns the two rows of AWS and Azure; the failure of
  GCP is a printed line, and the result holds no \<open>CollectionError\<close> for it: no entry of
  the result belongs to GCP at all.
\<close>

theorem failed_source_leaves_no_error:
  "collect_cloud_data keyless_collector http_gcp_times_out time0 save_ok =
     ([API_request_failed ''Read timed out''],
      Inr [ [(''timestamp'', JString ''2024-01-01 00:00:00''), (''provider'', JString ''AWS''),
            (''energy_consumption'', JNumber 12), (''carbon_emissions'', JNumber 7),
            (''data_transfer'', JNumber 0)],
           [(''timestamp'', JString ''2024-01-01 00:00:00''), (''provider'', JString ''Azure''),
            (''energy_consumption'', JNumber 9), (''carbon_emissions'', JNumber 4),
            (''data_transfer'', JNumber 0)] ])"
proof -
  have g: "collect_gcp_data keyless_collector http_gcp_times_out (time0 ''GCP'')
      = ([API_request_failed ''Read timed out''], Inr [])"
    by (simp add: collect_gcp_data_def collect_from_outcome [OF keyless_base_urls(1)]
        http_gcp_times_out_outcomes one_row_frame_None)
  have a: "collect_aws_data keyless_collector http_gcp_times_out (time0 ''AWS'')
      = ([], Inr [ [(''timestamp'', JString ''2024-01-01 00:00:00''), (''provider'', JString ''AWS''),
            (''energy_consumption'', JNumber 12), (''carbon_emissions'', JNumber 7),
            (''data_transfer'', JNumber 0)] ])"
    by (simp add: collect_aws_data_def collect_from_outcome [OF keyless_base_urls(2)]
        http_gcp_times_out_outcomes one_row_frame_object time0_def)
  have z: "collect_azure_data keyless_collector http_gcp_times_out (time0 ''Azure'')
      = ([], Inr [ [(''timestamp'', JString ''2024-01-01 00:00:00''), (''provider'', JString ''Azure''),
            (''energy_consumption'', JNumber 9), (''carbon_emissions'', JNumber 4),
            (''data_transfer'', JNumber 0)] ])"
    by (simp add: collect_azure_data_def collect_from_outcome [OF keyless_base_urls(3)]
        http_gcp_times_out_outcomes one_row_frame_object time0_def)
  show ?thesis
    by (simp add: collect_cloud_data_def g a z save_ok_def)
qed

theorem collect_cloud_data_isolates_sources_witness:
  "\<exists>rows. snd (collect_cloud_data keyless_collector http_gcp_times_out time0 save_ok) = Inr rows
     \<and> map (\<lambda>r. map_of r ''provider'') rows = [Some (JString ''AWS''), Some (JString ''Azure'')]
     \<and> length (fst (collect_cloud_data keyless_collector http_gcp_times_out time0 save_ok)) = 1"
proof -
  have og: "Raises_request_exception ''Read timed out'' =
      http_gcp_times_out ''https://cloudasset.googleapis.com/v1/sustainability/metrics''
        (gcp_headers keyless_collector)"
    by (simp add: http_gcp_times_out_outcomes)
  have oa: "Returns (JObject [(''energy_consumption'', JNumber 12), (''co2_emissions'', JNumber 7)]) =
      http_gcp_times_out ''https://sustainability.aws.amazon.com/v1/carbon-metrics''
        (aws_headers keyless_collector)"
    by (simp add: http_gcp_times_out_outcomes)
  have oz: "Returns (JObject [(''energy_usage'', JNumber 9), (''carbon_footprint'', JNumber 4)]) =
      http_gcp_times_out ''https://management.azure.com/sustainability/v1/emissions''
        (azure_headers keyless_collector)"
    by (simp add: http_gcp_times_out_outcomes)
  have shape: "\<forall>outcome\<in>{Raises_request_exception ''Read timed out'',
        Returns (JObject [(''energy_consumption'', JNumber 12), (''co2_emissions'', JNumber 7)]),
        Returns (JObject [(''energy_usage'', JNumber 9), (''carbon_footprint'', JNumber 4)])}.
      (\<exists>m. outcome = Raises_request_exception m) \<or> (\<exists>kvs. outcome = Returns (JObject kvs))"
    by simp
  have save: "\<forall>df. save_ok df ''all_providers'' = None"
    by (simp add: save_ok_def)
  from collect_cloud_data_isolates_sources [where http = http_gcp_times_out
      and save = save_ok and clock = time0, OF init_keyless og oa oz shape save]
  show ?thesis
    by (simp add: delivers_def request_failed_def truthy_def)
qed

text \<open>
  C7, amended. \<open>collect_gcp_data\<close> validates no range: for every response that is a
  non-empty JSON object it returns a one-row frame, never an error, whose energy, carbon
  and data-transfer cells are the values of \<open>energy_kwh\<close>, \<open>carbon_kg\<close> and
  \<open>network_gb\<close> exactly as received (whatever they are, a negative number included), or
  0 where the key is missing. Values are neither rejected nor clamped.
\<close>

theorem collect_gcp_data_passes_values_through:
  assumes init: "CarbonDataCollector_init getenv mkdir = Inr c"
    and resp: "http ''https://cloudasset.googleapis.com/v1/sustainability/metrics''
                 (gcp_headers c) = Returns (JObject kvs)"
    and ne: "kvs \<noteq> []"
  shows "collect_gcp_data c http now =
     ([], Inr [ [(''timestamp'', JString now), (''provider'', JString ''GCP''),
                (''energy_consumption'',
                   case map_of kvs ''energy_kwh'' of Some v \<Rightarrow> v | None \<Rightarrow> JNumber 0),
                (''carbon_emissions'',
                   case map_of kvs ''carbon_kg'' of Some v \<Rightarrow> v | None \<Rightarrow> JNumber 0),
                (''data_transfer'',
                   case map_of kvs ''network_gb'' of Some v \<Rightarrow> v | None \<Rightarrow> JNumber 0)] ])"
  using resp ne
  by (simp add: collect_gcp_data_def collect_from_outcome [OF init_collector(4) [OF init] ]
      one_row_frame_object)

theorem collect_gcp_data_passes_values_through_witness:
  "collect_gcp_data keyless_collector http_negative_energy ''2024-01-01 00:00:00'' =
     ([], Inr [ [(''timestamp'', JString ''2024-01-01 00:00:00''), (''provider'', JString ''GCP''),
                (''energy_consumption'', JNumber (- 5)),
                (''carbon_emissions'', JNumber 10),
                (''data_transfer'', JNumber 0)] ])"
proof -
  have resp: "http_negative_energy ''https://cloudasset.googleapis.com/v1/sustainability/metrics''
      (gcp_headers keyless_collector)
      = Returns (JObject [(''energy_kwh'', JNumber (- 5)), (''carbon_kg'', JNumber 10)])"
    by (simp add: http_negative_energy_def)
  have ne: "[(''energy_kwh'', JNumber (- 5)), (''carbon_kg'', JNumber 10)] \<noteq> []"
    by simp
  from collect_gcp_data_passes_values_through [where http = http_negative_energy,
      OF init_keyless resp ne]
  show ?thesis
    by simp
qed

text \<open>
  C7, the claim as stated fails. A response with the energy \<open>-5\<close> is out of range, yet
  the collector returns a record for it, with the energy \<open>-5\<close>, and no error.
\<close>

theorem negative_energy_is_not_rejected:
  "snd (collect_gcp_data keyless_collector http_negative_energy ''2024-01-01 00:00:00'') =
     Inr [ [(''timestamp'', JString ''2024-01-01 00:00:00''), (''provider'', JString ''GCP''),
           (''energy_consumption'', JNumber (- 5)),
           (''carbon_emissions'', JNumber 10),
           (''data_transfer'', JNumber 0)] ]"
  by (simp add: collect_gcp_data_def collect_from_outcome [OF keyless_base_urls(1)]
      http_negative_energy_def one_row_frame_object)

text \<open>
  C8, the claim as stated fails. With no API key in the environment the collector is
  constructed all the same, its GCP key being \<open>None\<close>; the request is made with the
  credential \<open>Bearer None\<close>, and when the service rejects it the collector returns an empty
  frame: a silent empty result and no \<open>ConfigurationError\<close>.
\<close>

theorem missing_key_gives_silent_empty_result:
  "CarbonDataCollector_init no_environment mkdir_ok = Inr keyless_collector
   \<and> gcp_api_key keyless_collector = None
   \<and> map_of (gcp_headers keyless_collector) ''Authorization'' = Some (Some ''Bearer None'')
   \<and> collect_gcp_data keyless_collector http_rejects_missing_key ''2024-01-01 00:00:00'' =
       ([API_request_failed ''401 Client Error: Unauthorized''], Inr [])"
proof -
  have h: "map_of (gcp_headers keyless_collector) ''Authorization'' = Some (Some ''Bearer None'')"
    by (simp add: gcp_headers_def keyless_collector_def py_str_def)
  then have "http_rejects_missing_key u (gcp_headers keyless_collector)
      = Raises_request_exception ''401 Client Error: Unauthorized''" for u
    by (simp add: http_rejects_missing_key_def)
  then have "collect_gcp_data keyless_collector http_rejects_missing_key ''2024-01-01 00:00:00'' =
       ([API_request_failed ''401 Client Error: Unauthorized''], Inr [])"
    by (simp add: collect_gcp_data_def collect_from_outcome [OF keyless_base_urls(1)]
        one_row_frame_None)
  with h init_keyless show ?thesis
    by (simp add: keyless_collector_def)
qed

text \<open>
  C8, amended. Credentials are read from the environment and not validated. For every
  environment, with or without the keys, constructing the collector succeeds when its data
  directory can be created, and its keys are whatever the environment holds (\<open>None\<close> for
  a variable that is not set). The requests carry the key as it is: \<open>Bearer\<close> followed by
  the key, or \<open>Bearer None\<close>, for GCP and Azure, and the key or \<open>None\<close> as
  \<open>x-api-key\<close> for AWS. A request that then fails makes \<open>collect_gcp_data\<close> print the
  failure and return an empty frame.
\<close>

theorem credentials_are_not_validated:
  "\<exists>c. CarbonDataCollector_init getenv mkdir_ok = Inr c
     \<and> gcp_api_key c = getenv ''GCP_API_KEY''
     \<and> aws_api_key c = getenv ''AWS_API_KEY''
     \<and> azure_api_key c = getenv ''AZURE_API_KEY''
     \<and> map_of (gcp_headers c) ''Authorization''
          = Some (Some (''Bearer '' @ py_str (getenv ''GCP_API_KEY'')))
     \<and> map_of (aws_headers c) ''x-api-key'' = Some (getenv ''AWS_API_KEY'')
     \<and> map_of (azure_headers c) ''Authorization''
          = Some (Some (''Bearer '' @ py_str (getenv ''AZURE_API_KEY'')))
     \<and> (\<forall>http m now.
          http ''https://cloudasset.googleapis.com/v1/sustainability/metrics'' (gcp_headers c)
            = Raises_request_exception m
          \<longrightarrow> collect_gcp_data c http now = ([API_request_failed m], Inr []))"
proof -
  obtain c where c: "CarbonDataCollector_init getenv mkdir_ok = Inr c"
    by (simp add: CarbonDataCollector_init_def mkdir_ok_def)
  note k = init_collector [OF c]
  have "collect_gcp_data c http now = ([API_request_failed m], Inr [])"
    if "http ''https://cloudasset.googleapis.com/v1/sustainability/metrics'' (gcp_headers c)
            = Raises_request_exception m" for http m now
    using that
    by (simp add: collect_gcp_data_def collect_from_outcome [OF k(4)] one_row_frame_None)
  with c k(1-3) show ?thesis
    by (auto simp: gcp_headers_def aws_headers_def azure_headers_def)
qed

theorem credentials_are_not_validated_witness:
  "\<exists>c. CarbonDataCollector_init no_environment mkdir_ok = Inr c
     \<and> gcp_api_key c = None
     \<and> map_of (gcp_headers c) ''Authorization'' = Some (Some ''Bearer None'')
     \<and> collect_gcp_data c http_rejects_missing_key ''2024-01-01 00:00:00''
          = ([API_request_failed ''401 Client Error: Unauthorized''], Inr [])"
proof -
  from credentials_are_not_validated [of no_environment]
  obtain c where c: "CarbonDataCollector_init no_environment mkdir_ok = Inr c"
    and k: "gcp_api_key c = no_environment ''GCP_API_KEY''"
    and h: "map_of (gcp_headers c) ''Authorization''
          = Some (Some (''Bearer '' @ py_str (no_environment ''GCP_API_KEY'')))"
    and r: "\<forall>http m now.
          http ''https://cloudasset.googleapis.com/v1/sustainability/metrics'' (gcp_headers c)
            = Raises_request_exception m
          \<longrightarrow> collect_gcp_data c http now = ([API_request_failed m], Inr [])"
    by blast
  from h have h': "map_of (gcp_headers c) ''Authorization'' = Some (Some ''Bearer None'')"
    by (simp add: no_environment_def py_str_def)
  then have "http_rejects_missing_key
      ''https://cloudasset.googleapis.com/v1/sustainability/metrics'' (gcp_headers c)
      = Raises_request_exception ''401 Client Error: Unauthorized''"
    by (simp add: http_rejects_missing_key_def)
  with r have "collect_gcp_data c http_rejects_missing_key ''2024-01-01 00:00:00''
      = ([API_request_failed ''401 Client Error: Unauthorized''], Inr [])"
    by blast
  with c k h' show ?thesis
    by (auto simp: no_environment_def)
qed

section \<open>Properties of the loaded data\<close>

lemma load_data_frame:
  assumes "load_data A (Inr rows) = (err, Some df)"
  shows "err = None"
    and "find (\<lambda>r. map_of LOCATION_COORDS (location r) = None) rows = None"
    and "df = map (\<lambda>(r, e, s).
           \<lparr>cloud_service_provider = cloud_service_provider r,
            location = location r,
            energy_consumption = energy_consumption r,
            total_emissions = total_emissions r,
            renewable_energy_usage = renewable_energy_usage r,
            ai_workload = ai_workload r,
            pue = pue r,
            energy_efficiency = e,
            sustainability_score = s,
            latitude = fst (the (map_of LOCATION_COORDS (location r))),
            longitude = snd (the (map_of LOCATION_COORDS (location r)))\<rparr>)
         (zip rows (zip (energy_efficiency_column A rows)
            (sustainability_score_column A rows (energy_efficiency_column A rows))))"
  using assms by (auto simp: load_data_def Let_def split: option.splits)

lemma length_columns:
  "length (energy_efficiency_column A rows) = length rows"
  "length (sustainability_score_column A rows (energy_efficiency_column A rows)) = length rows"
  by (simp_all add: energy_efficiency_column_def sustainability_score_column_def Let_def)

lemma load_data_efficiency:
  assumes "load_data A (Inr rows) = (err, Some df)"
  shows "map energy_efficiency df = energy_efficiency_column A rows"
proof (rule nth_equalityI)
  show "length (map energy_efficiency df) = length (energy_efficiency_column A rows)"
    unfolding load_data_frame(3) [OF assms] by (simp add: length_columns)
next
  fix i
  assume "i < length (map energy_efficiency df)"
  then have "i < length rows"
    unfolding load_data_frame(3) [OF assms] by (simp add: length_columns)
  then show "map energy_efficiency df ! i = energy_efficiency_column A rows ! i"
    unfolding load_data_frame(3) [OF assms] by (simp add: length_columns)
qed

lemma load_data_loads_iff:
  "(\<exists>df. load_data A (Inr rows) = (None, Some df))
     \<longleftrightarrow> (\<forall>r\<in>set rows. map_of LOCATION_COORDS (location r) \<noteq> None)"
proof (cases "find (\<lambda>r. map_of LOCATION_COORDS (location r) = None) rows")
  case None
  then have "\<exists>df. load_data A (Inr rows) = (None, Some df)"
    by (simp add: load_data_def Let_def)
  moreover from None have "\<forall>r\<in>set rows. map_of LOCATION_COORDS (location r) \<noteq> None"
    by (simp add: find_None_iff)
  ultimately show ?thesis
    by blast
next
  case (Some r)
  then have "r \<in> set rows" "map_of LOCATION_COORDS (location r) = None"
    by (auto simp: find_Some_iff)
  then have "\<not> (\<forall>r\<in>set rows. map_of LOCATION_COORDS (location r) \<noteq> None)"
    by blast
  moreover from Some have "\<not> (\<exists>df. load_data A (Inr rows) = (None, Some df))"
    by (simp add: load_data_def Let_def)
  ultimately show ?thesis
    by blast
qed

text \<open>
  C9. For every row that \<open>load_data\<close> loads, the Sustainability Score is the weighted
  blend with the fixed weights 0.4, 0.3 and 0.3:
  \<open>(renewable usage / 100) * 0.4 + ((2.0 - PUE) / 1.0) * 0.3
   + (energy efficiency / maximal energy efficiency over the data set) * 0.3\<close>,
  where the energy efficiency of a row is its energy consumption divided by its total
  emissions and the maximum is taken over the efficiency column of the whole frame. The
  loaded frame has the rows of the file, in order and with their columns unchanged. This
  holds in whatever arithmetic the cells are computed, so also where a zero divisor
  makes a cell \<open>inf\<close> or \<open>NaN\<close>.
\<close>

theorem sustainability_score_is_weighted_blend:
  assumes loaded: "load_data A (Inr rows) = (err, Some df)"
    and i: "i < length rows"
  shows "length df = length rows
     \<and> facility.truncate (df ! i) = rows ! i
     \<and> map energy_efficiency df =
         map (\<lambda>r. fdiv A (fnum A (energy_consumption r)) (fnum A (total_emissions r))) rows
     \<and> sustainability_score (df ! i) =
         weighted_blend A
           (fnum A (renewable_energy_usage (rows ! i)))
           (fnum A (pue (rows ! i)))
           (energy_efficiency (df ! i))
           (fmax A (map energy_efficiency df))"
proof -
  note df = load_data_frame(3) [OF loaded]
  have len: "length df = length rows"
    unfolding df by (simp add: length_columns)
  have tr: "facility.truncate (df ! i) = rows ! i"
    unfolding df using i by (simp add: length_columns facility.truncate_def)
  have eff: "map energy_efficiency df = energy_efficiency_column A rows"
    using loaded by (rule load_data_efficiency)
  have ei: "energy_efficiency (df ! i) = energy_efficiency_column A rows ! i"
    using eff i len by (metis nth_map)
  have "sustainability_score (df ! i) =
      sustainability_score_column A rows (energy_efficiency_column A rows) ! i"
    unfolding df using i by (simp add: length_columns)
  also have "\<dots> = weighted_blend A
           (fnum A (renewable_energy_usage (rows ! i)))
           (fnum A (pue (rows ! i)))
           (energy_efficiency_column A rows ! i)
           (fmax A (energy_efficiency_column A rows))"
    using i by (simp add: sustainability_score_column_def Let_def weighted_blend_def
        length_columns)
  finally have sc: "sustainability_score (df ! i) = weighted_blend A
           (fnum A (renewable_energy_usage (rows ! i)))
           (fnum A (pue (rows ! i)))
           (energy_efficiency (df ! i))
           (fmax A (map energy_efficiency df))"
    unfolding eff ei .
  from len tr eff sc show ?thesis
    by (simp add: energy_efficiency_column_def)
qed

lemma nth_of_map_eq:
  assumes "map f xs = ys" and "i < length ys"
  shows "f (xs ! i) = ys ! i"
  using assms by (metis length_map nth_map)

theorem sustainability_score_is_weighted_blend_witness:
  "\<exists>df. load_data extended_arithmetic (Inr with_zero_emissions) = (None, Some df)
     \<and> length df = 3
     \<and> map energy_efficiency df = [Fin (1 / 10), Fin (1 / 5), PInf]
     \<and> sustainability_score (df ! 0) = Fin (7 / 20)
     \<and> sustainability_score (df ! 1) = Fin (14 / 25)
     \<and> sustainability_score (df ! 2) = NaN"
proof -
  have "\<forall>r\<in>set with_zero_emissions. location r \<in> fst ` set LOCATION_COORDS"
    by (simp add: with_zero_emissions_def london_and_tokyo_def LOCATION_COORDS_def)
  then have "\<forall>r\<in>set with_zero_emissions. map_of LOCATION_COORDS (location r) \<noteq> None"
    by (simp only: map_of_eq_None_iff not_not)
  then obtain df where df: "load_data extended_arithmetic (Inr with_zero_emissions) = (None, Some df)"
    using load_data_loads_iff [of extended_arithmetic with_zero_emissions] by blast
  have rows: "with_zero_emissions ! 0 = london_and_tokyo ! 0"
      "with_zero_emissions ! 1 = london_and_tokyo ! 1"
      "with_zero_emissions ! 2 =
         \<lparr>cloud_service_provider = ''C'', location = ''Berlin'', energy_consumption = 5,
          total_emissions = 0, renewable_energy_usage = 100, ai_workload = 10, pue = 1\<rparr>"
    and len: "length with_zero_emissions = 3"
    by (simp_all add: with_zero_emissions_def london_and_tokyo_def)
  have i0: "0 < length with_zero_emissions" and i1: "1 < length with_zero_emissions"
    and i2: "2 < length with_zero_emissions"
    by (simp_all add: len)
  note t0 = sustainability_score_is_weighted_blend [OF df i0]
  note t1 = sustainability_score_is_weighted_blend [OF df i1]
  note t2 = sustainability_score_is_weighted_blend [OF df i2]
  from t0 have eff: "map energy_efficiency df = [Fin (1 / 10), Fin (1 / 5), PInf]"
    by (simp add: with_zero_emissions_def london_and_tokyo_def extended_arithmetic_def
        signed_inf_def)
  have e: "energy_efficiency (df ! 0) = Fin (1 / 10)" "energy_efficiency (df ! 1) = Fin (1 / 5)"
      "energy_efficiency (df ! 2) = PInf"
    using nth_of_map_eq [OF eff] by simp_all
  have mx: "fmax extended_arithmetic [Fin (1 / 10), Fin (1 / 5), PInf] = PInf"
    by (simp add: extended_arithmetic_def xmax_def)
  from t0 have s0: "sustainability_score (df ! 0) = Fin (7 / 20)"
    unfolding eff e mx rows
    by (simp add: weighted_blend_def london_and_tokyo_def extended_arithmetic_def xsub_def)
  from t1 have s1: "sustainability_score (df ! 1) = Fin (14 / 25)"
    unfolding eff e mx rows
    by (simp add: weighted_blend_def london_and_tokyo_def extended_arithmetic_def xsub_def)
  from t2 have s2: "sustainability_score (df ! 2) = NaN"
    unfolding eff e mx rows
    by (simp add: weighted_blend_def extended_arithmetic_def xsub_def)
  from t0 have "length df = 3"
    by (simp add: len)
  with df eff s0 s1 s2 show ?thesis
    by (intro exI [of _ df] conjI)
qed

lemma xmax_fold_Fin:
  "fold (\<lambda>y m. if xless m y then y else m) (map Fin ys) (Fin x) = Fin (fold max ys x)"
  by (induction ys arbitrary: x) (auto simp: max_def)

lemma xmax_Fin:
  assumes "xs \<noteq> []"
  shows "xmax (map Fin xs) = Fin (Max (set xs))"
proof -
  obtain y ys where xs: "xs = y # ys"
    using assms by (cases xs) auto
  have "filter (\<lambda>x. x \<noteq> NaN) (map Fin xs) = map Fin xs"
    by (induction xs) simp_all
  then have "xmax (map Fin xs) = Fin (fold max ys y)"
    by (simp add: xmax_def xs xmax_fold_Fin)
  also have "fold max ys y = Max (set xs)"
    unfolding xs by (rule Max.set_eq_fold [symmetric])
  finally show ?thesis .
qed

lemma score_column_nth:
  assumes "i < length rows"
  shows "sustainability_score_column A rows (energy_efficiency_column A rows) ! i =
     weighted_blend A
       (fnum A (renewable_energy_usage (rows ! i)))
       (fnum A (pue (rows ! i)))
       (energy_efficiency_column A rows ! i)
       (fmax A (energy_efficiency_column A rows))"
  using assms
  by (simp add: sustainability_score_column_def Let_def weighted_blend_def length_columns)

text \<open>
  In the arithmetic of exact values the blend is the rational number of the formula, with
  the greatest efficiency of the frame as the maximum, wherever every division is defined:
  no row has zero emissions and the greatest efficiency is not zero.
\<close>

lemma sustainability_score_exact:
  assumes loaded: "load_data extended_arithmetic (Inr rows) = (err, Some df)"
    and i: "i < length rows"
    and nz: "\<forall>r\<in>set rows. total_emissions r \<noteq> 0"
    and mx: "Max ((\<lambda>r. energy_consumption r / total_emissions r) ` set rows) \<noteq> 0"
  shows "sustainability_score (df ! i) =
     Fin (renewable_energy_usage (rows ! i) / 100 * (2 / 5)
          + (2 - pue (rows ! i)) / 1 * (3 / 10)
          + (energy_consumption (rows ! i) / total_emissions (rows ! i))
              / Max ((\<lambda>r. energy_consumption r / total_emissions r) ` set rows)
              * (3 / 10))"
proof -
  let ?g = "\<lambda>r. energy_consumption r / total_emissions r"
  let ?M = "Max (?g ` set rows)"
  from i have ne: "rows \<noteq> []" and mem: "rows ! i \<in> set rows"
    by auto
  have col: "energy_efficiency_column extended_arithmetic rows = map Fin (map ?g rows)"
    using nz by (simp add: energy_efficiency_column_def extended_arithmetic_def)
  from ne have "map ?g rows \<noteq> []"
    by simp
  from xmax_Fin [OF this]
  have m: "fmax extended_arithmetic (energy_efficiency_column extended_arithmetic rows) = Fin ?M"
    unfolding col by (simp add: extended_arithmetic_def)
  have e: "energy_efficiency_column extended_arithmetic rows ! i = Fin (?g (rows ! i))"
    unfolding col using i by simp
  note df = load_data_frame(3) [OF loaded]
  have "sustainability_score (df ! i) =
      sustainability_score_column extended_arithmetic rows
        (energy_efficiency_column extended_arithmetic rows) ! i"
    unfolding df using i by (simp add: length_columns)
  also have "\<dots> = weighted_blend extended_arithmetic
       (Fin (renewable_energy_usage (rows ! i))) (Fin (pue (rows ! i)))
       (Fin (?g (rows ! i))) (Fin ?M)"
    unfolding score_column_nth [OF i] m e by (simp add: extended_arithmetic_def)
  also have "\<dots> = Fin (renewable_energy_usage (rows ! i) / 100 * (2 / 5)
          + (2 - pue (rows ! i)) / 1 * (3 / 10)
          + ?g (rows ! i) / ?M * (3 / 10))"
    using mx by (simp add: weighted_blend_def extended_arithmetic_def xsub_def)
  finally show ?thesis .
qed

section \<open>Properties of the simulation\<close>

lemma map_of_replace_same:
  "key \<in> fst ` set d \<Longrightarrow>
     map_of (map (\<lambda>(k', w). if k' = key then (k', v) else (k', w)) d) key = Some v"
proof (induction d)
  case Nil
  then show ?case by simp
next
  case (Cons p d)
  obtain a b where p: "p = (a, b)"
    by (cases p)
  show ?case
  proof (cases "a = key")
    case True
    then show ?thesis
      unfolding p by simp
  next
    case False
    with Cons.prems have "key \<in> fst ` set d"
      unfolding p by auto
    with Cons.IH False show ?thesis
      unfolding p by simp
  qed
qed

lemma map_of_replace_other:
  "k \<noteq> key \<Longrightarrow>
     map_of (map (\<lambda>(k', w). if k' = key then (k', v) else (k', w)) d) k = map_of d k"
proof (induction d)
  case Nil
  then show ?case by simp
next
  case (Cons p d)
  obtain a b where p: "p = (a, b)"
    by (cases p)
  from Cons show ?case
    unfolding p by (cases "a = key") simp_all
qed

lemma map_of_dict_set:
  "map_of (dict_set d key v) k = (if k = key then Some v else map_of d k)"
proof (cases "k = key")
  case True
  show ?thesis
  proof (cases "key \<in> fst ` set d")
    case True
    with \<open>k = key\<close> show ?thesis
      by (simp add: dict_set_def map_of_replace_same)
  next
    case False
    then have "map_of d key = None"
      by (simp add: map_of_eq_None_iff)
    with False \<open>k = key\<close> show ?thesis
      by (simp add: dict_set_def map_add_def)
  qed
next
  case False
  then show ?thesis
    by (auto simp: dict_set_def map_of_replace_other map_add_def split: option.splits)
qed

lemma load_global_np: "load_global ''np'' = Inl (NameError ''np'')"
  by (simp add: load_global_def module_globals_def)

lemma scale_entry_raises:
  "scale_entry random_record key u =
     (case map_of random_record key of
        None \<Rightarrow> Inl (KeyError key)
      | Some v \<Rightarrow> Inl (NameError ''np''))"
  by (simp add: scale_entry_def load_global_np split: option.splits)

lemma simulate_iteration_raises:
  "simulate_iteration env base_data k trace =
     Inl (if base_data = [] then ValueError ''sample''
          else if map_of (base_data ! (pick_row env k mod length base_data)) ''total_emissions''
                    = None
          then KeyError ''total_emissions''
          else NameError ''np'')"
  by (auto simp: simulate_iteration_def Let_def scale_entry_raises map_of_dict_set
      split: option.splits)

lemma simulate_loop_raises:
  "simulate_loop env base_data (Suc fuel) k trace =
     (trace, Raised (if base_data = [] then ValueError ''sample''
          else if map_of (base_data ! (pick_row env k mod length base_data)) ''total_emissions''
                    = None
          then KeyError ''total_emissions''
          else NameError ''np''))"
  by (simp add: simulate_iteration_raises)

text \<open>
  C10, the claim as stated fails. The CSV file of the emissions database has the column
  \<open>Total Emissions (kg CO2e)\<close> and no column \<open>total_emissions\<close>: on its rows the
  simulation fails with \<open>KeyError\<close>, since the augmented assignment reads the missing key
  before it reaches the unbound name \<open>np\<close>. It is not always an unbound-name error.
\<close>

theorem missing_column_raises_key_error:
  "simulate_real_time_data constructed_ok (Inr database_csv) env_ok 1 =
     (\<lparr>inserted = [], lines = []\<rparr>, Raised (KeyError ''total_emissions''))"
  by (simp add: simulate_real_time_data_def constructed_ok_def simulate_iteration_raises
      database_csv_def env_ok_def)

text \<open>
  C10, amended. Every invocation of \<open>simulate_real_time_data\<close> ends with an exception in
  or before its first iteration, before any record is uploaded and before anything is
  printed: no data point is ever inserted by the simulation. The exception is the
  \<open>NameError\<close> for the unbound name \<open>np\<close> whenever the monitor is constructed, the CSV
  file is read, it has a row, and the sampled row has the key \<open>total_emissions\<close>; before
  that point an earlier exception ends the call instead.
\<close>

theorem simulation_never_inserts:
  assumes "0 < fuel"
  shows "\<exists>e. simulate_real_time_data constructed read_csv env fuel =
            (\<lparr>inserted = [], lines = []\<rparr>, Raised e)
     \<and> (\<forall>db_manager base_data.
           constructed = Inr db_manager \<and> read_csv = Inr base_data \<and> base_data \<noteq> []
           \<and> map_of (base_data ! (pick_row env 0 mod length base_data)) ''total_emissions''
                \<noteq> None
           \<longrightarrow> e = NameError ''np'')"
proof -
  from assms obtain n where fuel: "fuel = Suc n"
    by (cases fuel) auto
  show ?thesis
  proof (cases constructed)
    case (Inl e)
    then show ?thesis by (simp add: simulate_real_time_data_def)
  next
    case (Inr db_manager)
    show ?thesis
    proof (cases read_csv)
      case (Inl e)
      with Inr show ?thesis by (simp add: simulate_real_time_data_def)
    next
      case base: (Inr base_data)
      with Inr show ?thesis
        unfolding fuel by (simp add: simulate_real_time_data_def simulate_iteration_raises)
    qed
  qed
qed

theorem simulation_never_inserts_witness:
  "simulate_real_time_data constructed_ok (Inr snake_case_csv) env_ok 1 =
     (\<lparr>inserted = [], lines = []\<rparr>, Raised (NameError ''np''))"
proof -
  have fuel: "(0::nat) < 1"
    by simp
  from simulation_never_inserts [OF fuel, of constructed_ok "Inr snake_case_csv" env_ok]
  obtain e where r: "simulate_real_time_data constructed_ok (Inr snake_case_csv) env_ok 1 =
            (\<lparr>inserted = [], lines = []\<rparr>, Raised e)"
    and n: "\<forall>db_manager base_data.
           constructed_ok = Inr db_manager \<and> Inr snake_case_csv = Inr base_data \<and> base_data \<noteq> []
           \<and> map_of (base_data ! (pick_row env_ok 0 mod length base_data)) ''total_emissions''
                \<noteq> None
           \<longrightarrow> e = NameError ''np''"
    by blast
  have "constructed_ok = Inr ((), \<lparr>current_emissions = [], ax00 = cleared, ax01 = cleared,
               ax10 = cleared, ax11 = cleared\<rparr>)"
    by (simp add: constructed_ok_def)
  moreover have "snake_case_csv \<noteq> []"
    "map_of (snake_case_csv ! (pick_row env_ok 0 mod length snake_case_csv)) ''total_emissions''
       \<noteq> None"
    by (simp_all add: snake_case_csv_def env_ok_def)
  ultimately have "e = NameError ''np''"
    using n by blast
  with r show ?thesis
    by simp
qed

end
